theory Spec2Isabelle
  imports Complex_Main
begin

section \<open>BrightSmile Dental webhook: the appointment dispatcher\<close>

text \<open>
  A shallow embedding of \<^verbatim>\<open>handle_webhook_request\<close> of \<^verbatim>\<open>webhook_server.py\<close>
  (lines 74-169) together with the two module globals it works on, \<^verbatim>\<open>appointments\<close>
  (lines 21-34) and \<^verbatim>\<open>available_slots\<close> (lines 37-44).

  The function reads the parsed JSON body of the request, may update the global
  \<^verbatim>\<open>appointments\<close>, and returns a JSON body with a transport status. The model passes the
  two globals in and out as a state record. Every Python exception raised inside the
  \<^verbatim>\<open>try\<close> block is a value \<open>Inl e\<close>; the \<^verbatim>\<open>except Exception\<close> clause turns it into the
  status-500 response and keeps whatever state the globals had when the exception was raised.
  The two \<^verbatim>\<open>print\<close> calls write to the operator console only and are left out.

  The model starts from the value that \<^verbatim>\<open>request.get_json()\<close> returns (line 77); reading
  and parsing the request body is the work of the HTTP framework.
\<close>

subsection \<open>Strings\<close>

text \<open>
  A Python \<^verbatim>\<open>str\<close> is a sequence of Unicode code points; the model has it as a list of
  natural numbers. \<open>ascii\<close> turns a literal of the source into such a list.
\<close>

type_synonym str = "nat list"

definition ascii :: "string \<Rightarrow> str" where
  "ascii s = map of_char s"

subsection \<open>The character tables\<close>

text \<open>
  \<^verbatim>\<open>str.lower\<close>, \<^verbatim>\<open>str.title\<close> and \<^verbatim>\<open>str.split\<close> consult the character database of the
  interpreter. The tables below are those of Unicode 14.0.0, the version CPython 3.11
  carries. A set of code points is a list of ranges \<open>(lo, hi)\<close>, both ends included, in
  increasing order.
\<close>

fun in_ranges :: "nat \<Rightarrow> (nat \<times> nat) list \<Rightarrow> bool" where
  "in_ranges c [] = False"
| "in_ranges c ((lo, hi) # rs) =
     (if c < lo then False else if c \<le> hi then True else in_ranges c rs)"

text \<open>The code points for which \<^verbatim>\<open>str.isspace()\<close> holds; \<^verbatim>\<open>str.split()\<close> splits at them.\<close>

definition whitespace :: "(nat \<times> nat) list" where
  "whitespace =
     [(9, 13), (28, 32), (133, 133), (160, 160), (5760, 5760), (8192, 8202), (8232, 8233),
      (8239, 8239), (8287, 8287), (12288, 12288)]"

definition isspace :: "nat \<Rightarrow> bool" where
  "isspace c = in_ranges c whitespace"

text \<open>The code points with the property \<^verbatim>\<open>Cased\<close>.\<close>

definition cased :: "(nat \<times> nat) list" where
  "cased =
     [(65, 90), (97, 122), (170, 170), (181, 181), (186, 186), (192, 214), (216, 246),
      (248, 442), (444, 447), (452, 659), (661, 696), (704, 705), (736, 740), (837, 837),
      (880, 883), (886, 887), (890, 893), (895, 895), (902, 902), (904, 906), (908, 908),
      (910, 929), (931, 1013), (1015, 1153), (1162, 1327), (1329, 1366), (1376, 1416),
      (4256, 4293), (4295, 4295), (4301, 4301), (4304, 4346), (4349, 4351), (5024, 5109),
      (5112, 5117), (7296, 7304), (7312, 7354), (7357, 7359), (7424, 7615), (7680, 7957),
      (7960, 7965), (7968, 8005), (8008, 8013), (8016, 8023), (8025, 8025), (8027, 8027),
      (8029, 8029), (8031, 8061), (8064, 8116), (8118, 8124), (8126, 8126), (8130, 8132),
      (8134, 8140), (8144, 8147), (8150, 8155), (8160, 8172), (8178, 8180), (8182, 8188),
      (8305, 8305), (8319, 8319), (8336, 8348), (8450, 8450), (8455, 8455), (8458, 8467),
      (8469, 8469), (8473, 8477), (8484, 8484), (8486, 8486), (8488, 8488), (8490, 8493),
      (8495, 8500), (8505, 8505), (8508, 8511), (8517, 8521), (8526, 8526), (8544, 8575),
      (8579, 8580), (9398, 9449), (11264, 11492), (11499, 11502), (11506, 11507),
      (11520, 11557), (11559, 11559), (11565, 11565), (42560, 42605), (42624, 42653),
      (42786, 42887), (42891, 42894), (42896, 42954), (42960, 42961), (42963, 42963),
      (42965, 42969), (42997, 42998), (43000, 43002), (43824, 43866), (43868, 43880),
      (43888, 43967), (64256, 64262), (64275, 64279), (65313, 65338), (65345, 65370),
      (66560, 66639), (66736, 66771), (66776, 66811), (66928, 66938), (66940, 66954),
      (66956, 66962), (66964, 66965), (66967, 66977), (66979, 66993), (66995, 67001),
      (67003, 67004), (67456, 67456), (67459, 67461), (67463, 67504), (67506, 67514),
      (68736, 68786), (68800, 68850), (71840, 71903), (93760, 93823), (119808, 119892),
      (119894, 119964), (119966, 119967), (119970, 119970), (119973, 119974), (119977, 119980),
      (119982, 119993), (119995, 119995), (119997, 120003), (120005, 120069), (120071, 120074),
      (120077, 120084), (120086, 120092), (120094, 120121), (120123, 120126), (120128, 120132),
      (120134, 120134), (120138, 120144), (120146, 120485), (120488, 120512), (120514, 120538),
      (120540, 120570), (120572, 120596), (120598, 120628), (120630, 120654), (120656, 120686),
      (120688, 120712), (120714, 120744), (120746, 120770), (120772, 120779), (122624, 122633),
      (122635, 122654), (125184, 125251), (127280, 127305), (127312, 127337), (127344, 127369)]"

definition is_cased :: "nat \<Rightarrow> bool" where
  "is_cased c = in_ranges c cased"

text \<open>The code points with the property \<^verbatim>\<open>Case_Ignorable\<close>.\<close>

definition case_ignorable :: "(nat \<times> nat) list" where
  "case_ignorable =
     [(39, 39), (46, 46), (58, 58), (94, 94), (96, 96), (168, 168), (173, 173), (175, 175),
      (180, 180), (183, 184), (688, 879), (884, 885), (890, 890), (900, 901), (903, 903),
      (1155, 1161), (1369, 1369), (1375, 1375), (1425, 1469), (1471, 1471), (1473, 1474),
      (1476, 1477), (1479, 1479), (1524, 1524), (1536, 1541), (1552, 1562), (1564, 1564),
      (1600, 1600), (1611, 1631), (1648, 1648), (1750, 1757), (1759, 1768), (1770, 1773),
      (1807, 1807), (1809, 1809), (1840, 1866), (1958, 1968), (2027, 2037), (2042, 2042),
      (2045, 2045), (2070, 2093), (2137, 2139), (2184, 2184), (2192, 2193), (2200, 2207),
      (2249, 2306), (2362, 2362), (2364, 2364), (2369, 2376), (2381, 2381), (2385, 2391),
      (2402, 2403), (2417, 2417), (2433, 2433), (2492, 2492), (2497, 2500), (2509, 2509),
      (2530, 2531), (2558, 2558), (2561, 2562), (2620, 2620), (2625, 2626), (2631, 2632),
      (2635, 2637), (2641, 2641), (2672, 2673), (2677, 2677), (2689, 2690), (2748, 2748),
      (2753, 2757), (2759, 2760), (2765, 2765), (2786, 2787), (2810, 2815), (2817, 2817),
      (2876, 2876), (2879, 2879), (2881, 2884), (2893, 2893), (2901, 2902), (2914, 2915),
      (2946, 2946), (3008, 3008), (3021, 3021), (3072, 3072), (3076, 3076), (3132, 3132),
      (3134, 3136), (3142, 3144), (3146, 3149), (3157, 3158), (3170, 3171), (3201, 3201),
      (3260, 3260), (3263, 3263), (3270, 3270), (3276, 3277), (3298, 3299), (3328, 3329),
      (3387, 3388), (3393, 3396), (3405, 3405), (3426, 3427), (3457, 3457), (3530, 3530),
      (3538, 3540), (3542, 3542), (3633, 3633), (3636, 3642), (3654, 3662), (3761, 3761),
      (3764, 3772), (3782, 3782), (3784, 3789), (3864, 3865), (3893, 3893), (3895, 3895),
      (3897, 3897), (3953, 3966), (3968, 3972), (3974, 3975), (3981, 3991), (3993, 4028),
      (4038, 4038), (4141, 4144), (4146, 4151), (4153, 4154), (4157, 4158), (4184, 4185),
      (4190, 4192), (4209, 4212), (4226, 4226), (4229, 4230), (4237, 4237), (4253, 4253),
      (4348, 4348), (4957, 4959), (5906, 5908), (5938, 5939), (5970, 5971), (6002, 6003),
      (6068, 6069), (6071, 6077), (6086, 6086), (6089, 6099), (6103, 6103), (6109, 6109),
      (6155, 6159), (6211, 6211), (6277, 6278), (6313, 6313), (6432, 6434), (6439, 6440),
      (6450, 6450), (6457, 6459), (6679, 6680), (6683, 6683), (6742, 6742), (6744, 6750),
      (6752, 6752), (6754, 6754), (6757, 6764), (6771, 6780), (6783, 6783), (6823, 6823),
      (6832, 6862), (6912, 6915), (6964, 6964), (6966, 6970), (6972, 6972), (6978, 6978),
      (7019, 7027), (7040, 7041), (7074, 7077), (7080, 7081), (7083, 7085), (7142, 7142),
      (7144, 7145), (7149, 7149), (7151, 7153), (7212, 7219), (7222, 7223), (7288, 7293),
      (7376, 7378), (7380, 7392), (7394, 7400), (7405, 7405), (7412, 7412), (7416, 7417),
      (7468, 7530), (7544, 7544), (7579, 7679), (8125, 8125), (8127, 8129), (8141, 8143),
      (8157, 8159), (8173, 8175), (8189, 8190), (8203, 8207), (8216, 8217), (8228, 8228),
      (8231, 8231), (8234, 8238), (8288, 8292), (8294, 8303), (8305, 8305), (8319, 8319),
      (8336, 8348), (8400, 8432), (11388, 11389), (11503, 11505), (11631, 11631),
      (11647, 11647), (11744, 11775), (11823, 11823), (12293, 12293), (12330, 12333),
      (12337, 12341), (12347, 12347), (12441, 12446), (12540, 12542), (40981, 40981),
      (42232, 42237), (42508, 42508), (42607, 42610), (42612, 42621), (42623, 42623),
      (42652, 42655), (42736, 42737), (42752, 42785), (42864, 42864), (42888, 42890),
      (42994, 42996), (43000, 43001), (43010, 43010), (43014, 43014), (43019, 43019),
      (43045, 43046), (43052, 43052), (43204, 43205), (43232, 43249), (43263, 43263),
      (43302, 43309), (43335, 43345), (43392, 43394), (43443, 43443), (43446, 43449),
      (43452, 43453), (43471, 43471), (43493, 43494), (43561, 43566), (43569, 43570),
      (43573, 43574), (43587, 43587), (43596, 43596), (43632, 43632), (43644, 43644),
      (43696, 43696), (43698, 43700), (43703, 43704), (43710, 43711), (43713, 43713),
      (43741, 43741), (43756, 43757), (43763, 43764), (43766, 43766), (43867, 43871),
      (43881, 43883), (44005, 44005), (44008, 44008), (44013, 44013), (64286, 64286),
      (64434, 64450), (65024, 65039), (65043, 65043), (65056, 65071), (65106, 65106),
      (65109, 65109), (65279, 65279), (65287, 65287), (65294, 65294), (65306, 65306),
      (65342, 65342), (65344, 65344), (65392, 65392), (65438, 65439), (65507, 65507),
      (65529, 65531), (66045, 66045), (66272, 66272), (66422, 66426), (67456, 67461),
      (67463, 67504), (67506, 67514), (68097, 68099), (68101, 68102), (68108, 68111),
      (68152, 68154), (68159, 68159), (68325, 68326), (68900, 68903), (69291, 69292),
      (69446, 69456), (69506, 69509), (69633, 69633), (69688, 69702), (69744, 69744),
      (69747, 69748), (69759, 69761), (69811, 69814), (69817, 69818), (69821, 69821),
      (69826, 69826), (69837, 69837), (69888, 69890), (69927, 69931), (69933, 69940),
      (70003, 70003), (70016, 70017), (70070, 70078), (70089, 70092), (70095, 70095),
      (70191, 70193), (70196, 70196), (70198, 70199), (70206, 70206), (70367, 70367),
      (70371, 70378), (70400, 70401), (70459, 70460), (70464, 70464), (70502, 70508),
      (70512, 70516), (70712, 70719), (70722, 70724), (70726, 70726), (70750, 70750),
      (70835, 70840), (70842, 70842), (70847, 70848), (70850, 70851), (71090, 71093),
      (71100, 71101), (71103, 71104), (71132, 71133), (71219, 71226), (71229, 71229),
      (71231, 71232), (71339, 71339), (71341, 71341), (71344, 71349), (71351, 71351),
      (71453, 71455), (71458, 71461), (71463, 71467), (71727, 71735), (71737, 71738),
      (71995, 71996), (71998, 71998), (72003, 72003), (72148, 72151), (72154, 72155),
      (72160, 72160), (72193, 72202), (72243, 72248), (72251, 72254), (72263, 72263),
      (72273, 72278), (72281, 72283), (72330, 72342), (72344, 72345), (72752, 72758),
      (72760, 72765), (72767, 72767), (72850, 72871), (72874, 72880), (72882, 72883),
      (72885, 72886), (73009, 73014), (73018, 73018), (73020, 73021), (73023, 73029),
      (73031, 73031), (73104, 73105), (73109, 73109), (73111, 73111), (73459, 73460),
      (78896, 78904), (92912, 92916), (92976, 92982), (92992, 92995), (94031, 94031),
      (94095, 94111), (94176, 94177), (94179, 94180), (110576, 110579), (110581, 110587),
      (110589, 110590), (113821, 113822), (113824, 113827), (118528, 118573), (118576, 118598),
      (119143, 119145), (119155, 119170), (119173, 119179), (119210, 119213), (119362, 119364),
      (121344, 121398), (121403, 121452), (121461, 121461), (121476, 121476), (121499, 121503),
      (121505, 121519), (122880, 122886), (122888, 122904), (122907, 122913), (122915, 122916),
      (122918, 122922), (123184, 123197), (123566, 123566), (123628, 123631), (125136, 125142),
      (125252, 125259), (127995, 127999), (917505, 917505), (917536, 917631), (917760, 917999)]"

definition is_case_ignorable :: "nat \<Rightarrow> bool" where
  "is_case_ignorable c = in_ranges c case_ignorable"

text \<open>
  A case mapping that sends one code point to one code point is a list of entries
  \<open>(lo, hi, step, target)\<close> in increasing order of \<open>lo\<close>: the code points \<open>lo\<close>,
  \<open>lo + step\<close>, ... up to \<open>hi\<close> are sent to \<open>target\<close>, \<open>target + step\<close>, ...; a code
  point that no entry covers is sent to itself.
\<close>

fun map_char :: "(nat \<times> nat \<times> nat \<times> nat) list \<Rightarrow> nat \<Rightarrow> nat" where
  "map_char [] c = c"
| "map_char ((lo, hi, step, target) # es) c =
     (if c < lo then c
      else if c \<le> hi \<and> (c - lo) mod step = 0 then target + (c - lo)
      else map_char es c)"

text \<open>The code points that a case mapping sends to several code points, in increasing order.\<close>

fun special :: "(nat \<times> nat list) list \<Rightarrow> nat \<Rightarrow> nat list option" where
  "special [] c = None"
| "special ((k, v) # es) c =
     (if c < k then None else if c = k then Some v else special es c)"

text \<open>
  The lowercase mapping. The capital sigma \<open>0x3A3\<close> is not in it: its lowercase form depends
  on the characters around it, see \<open>lower_ucs4\<close>.
\<close>

definition lower_table :: "(nat \<times> nat \<times> nat \<times> nat) list" where
  "lower_table =
     [(65, 90, 1, 97), (192, 214, 1, 224), (216, 222, 1, 248), (256, 302, 2, 257),
      (306, 310, 2, 307), (313, 327, 2, 314), (330, 374, 2, 331), (376, 376, 1, 255),
      (377, 381, 2, 378), (385, 385, 1, 595), (386, 388, 2, 387), (390, 390, 1, 596),
      (391, 391, 1, 392), (393, 394, 1, 598), (395, 395, 1, 396), (398, 398, 1, 477),
      (399, 399, 1, 601), (400, 400, 1, 603), (401, 401, 1, 402), (403, 403, 1, 608),
      (404, 404, 1, 611), (406, 406, 1, 617), (407, 407, 1, 616), (408, 408, 1, 409),
      (412, 412, 1, 623), (413, 413, 1, 626), (415, 415, 1, 629), (416, 420, 2, 417),
      (422, 422, 1, 640), (423, 423, 1, 424), (425, 425, 1, 643), (428, 428, 1, 429),
      (430, 430, 1, 648), (431, 431, 1, 432), (433, 434, 1, 650), (435, 437, 2, 436),
      (439, 439, 1, 658), (440, 440, 1, 441), (444, 444, 1, 445), (452, 452, 1, 454),
      (453, 453, 1, 454), (455, 455, 1, 457), (456, 456, 1, 457), (458, 458, 1, 460),
      (459, 475, 2, 460), (478, 494, 2, 479), (497, 497, 1, 499), (498, 500, 2, 499),
      (502, 502, 1, 405), (503, 503, 1, 447), (504, 542, 2, 505), (544, 544, 1, 414),
      (546, 562, 2, 547), (570, 570, 1, 11365), (571, 571, 1, 572), (573, 573, 1, 410),
      (574, 574, 1, 11366), (577, 577, 1, 578), (579, 579, 1, 384), (580, 580, 1, 649),
      (581, 581, 1, 652), (582, 590, 2, 583), (880, 882, 2, 881), (886, 886, 1, 887),
      (895, 895, 1, 1011), (902, 902, 1, 940), (904, 906, 1, 941), (908, 908, 1, 972),
      (910, 911, 1, 973), (913, 929, 1, 945), (932, 939, 1, 964), (975, 975, 1, 983),
      (984, 1006, 2, 985), (1012, 1012, 1, 952), (1015, 1015, 1, 1016), (1017, 1017, 1, 1010),
      (1018, 1018, 1, 1019), (1021, 1023, 1, 891), (1024, 1039, 1, 1104),
      (1040, 1071, 1, 1072), (1120, 1152, 2, 1121), (1162, 1214, 2, 1163),
      (1216, 1216, 1, 1231), (1217, 1229, 2, 1218), (1232, 1326, 2, 1233),
      (1329, 1366, 1, 1377), (4256, 4293, 1, 11520), (4295, 4295, 1, 11559),
      (4301, 4301, 1, 11565), (5024, 5103, 1, 43888), (5104, 5109, 1, 5112),
      (7312, 7354, 1, 4304), (7357, 7359, 1, 4349), (7680, 7828, 2, 7681),
      (7838, 7838, 1, 223), (7840, 7934, 2, 7841), (7944, 7951, 1, 7936),
      (7960, 7965, 1, 7952), (7976, 7983, 1, 7968), (7992, 7999, 1, 7984),
      (8008, 8013, 1, 8000), (8025, 8031, 2, 8017), (8040, 8047, 1, 8032),
      (8072, 8079, 1, 8064), (8088, 8095, 1, 8080), (8104, 8111, 1, 8096),
      (8120, 8121, 1, 8112), (8122, 8123, 1, 8048), (8124, 8124, 1, 8115),
      (8136, 8139, 1, 8050), (8140, 8140, 1, 8131), (8152, 8153, 1, 8144),
      (8154, 8155, 1, 8054), (8168, 8169, 1, 8160), (8170, 8171, 1, 8058),
      (8172, 8172, 1, 8165), (8184, 8185, 1, 8056), (8186, 8187, 1, 8060),
      (8188, 8188, 1, 8179), (8486, 8486, 1, 969), (8490, 8490, 1, 107), (8491, 8491, 1, 229),
      (8498, 8498, 1, 8526), (8544, 8559, 1, 8560), (8579, 8579, 1, 8580),
      (9398, 9423, 1, 9424), (11264, 11311, 1, 11312), (11360, 11360, 1, 11361),
      (11362, 11362, 1, 619), (11363, 11363, 1, 7549), (11364, 11364, 1, 637),
      (11367, 11371, 2, 11368), (11373, 11373, 1, 593), (11374, 11374, 1, 625),
      (11375, 11375, 1, 592), (11376, 11376, 1, 594), (11378, 11378, 1, 11379),
      (11381, 11381, 1, 11382), (11390, 11391, 1, 575), (11392, 11490, 2, 11393),
      (11499, 11501, 2, 11500), (11506, 11506, 1, 11507), (42560, 42604, 2, 42561),
      (42624, 42650, 2, 42625), (42786, 42798, 2, 42787), (42802, 42862, 2, 42803),
      (42873, 42875, 2, 42874), (42877, 42877, 1, 7545), (42878, 42886, 2, 42879),
      (42891, 42891, 1, 42892), (42893, 42893, 1, 613), (42896, 42898, 2, 42897),
      (42902, 42920, 2, 42903), (42922, 42922, 1, 614), (42923, 42923, 1, 604),
      (42924, 42924, 1, 609), (42925, 42925, 1, 620), (42926, 42926, 1, 618),
      (42928, 42928, 1, 670), (42929, 42929, 1, 647), (42930, 42930, 1, 669),
      (42931, 42931, 1, 43859), (42932, 42946, 2, 42933), (42948, 42948, 1, 42900),
      (42949, 42949, 1, 642), (42950, 42950, 1, 7566), (42951, 42953, 2, 42952),
      (42960, 42960, 1, 42961), (42966, 42968, 2, 42967), (42997, 42997, 1, 42998),
      (65313, 65338, 1, 65345), (66560, 66599, 1, 66600), (66736, 66771, 1, 66776),
      (66928, 66938, 1, 66967), (66940, 66954, 1, 66979), (66956, 66962, 1, 66995),
      (66964, 66965, 1, 67003), (68736, 68786, 1, 68800), (71840, 71871, 1, 71872),
      (93760, 93791, 1, 93792), (125184, 125217, 1, 125218)]"

definition lower_special :: "(nat \<times> nat list) list" where
  "lower_special =
     [(304, [105, 775])]"

definition to_lower_full :: "nat \<Rightarrow> str" where
  "to_lower_full c =
     (case special lower_special c of Some cs \<Rightarrow> cs | None \<Rightarrow> [map_char lower_table c])"

text \<open>The titlecase mapping.\<close>

definition title_table :: "(nat \<times> nat \<times> nat \<times> nat) list" where
  "title_table =
     [(97, 122, 1, 65), (181, 181, 1, 924), (224, 246, 1, 192), (248, 254, 1, 216),
      (255, 255, 1, 376), (257, 303, 2, 256), (305, 305, 1, 73), (307, 311, 2, 306),
      (314, 328, 2, 313), (331, 375, 2, 330), (378, 382, 2, 377), (383, 383, 1, 83),
      (384, 384, 1, 579), (387, 389, 2, 386), (392, 392, 1, 391), (396, 396, 1, 395),
      (402, 402, 1, 401), (405, 405, 1, 502), (409, 409, 1, 408), (410, 410, 1, 573),
      (414, 414, 1, 544), (417, 421, 2, 416), (424, 424, 1, 423), (429, 429, 1, 428),
      (432, 432, 1, 431), (436, 438, 2, 435), (441, 441, 1, 440), (445, 445, 1, 444),
      (447, 447, 1, 503), (452, 452, 1, 453), (454, 454, 1, 453), (455, 455, 1, 456),
      (457, 457, 1, 456), (458, 458, 1, 459), (460, 476, 2, 459), (477, 477, 1, 398),
      (479, 495, 2, 478), (497, 497, 1, 498), (499, 501, 2, 498), (505, 543, 2, 504),
      (547, 563, 2, 546), (572, 572, 1, 571), (575, 576, 1, 11390), (578, 578, 1, 577),
      (583, 591, 2, 582), (592, 592, 1, 11375), (593, 593, 1, 11373), (594, 594, 1, 11376),
      (595, 595, 1, 385), (596, 596, 1, 390), (598, 599, 1, 393), (601, 601, 1, 399),
      (603, 603, 1, 400), (604, 604, 1, 42923), (608, 608, 1, 403), (609, 609, 1, 42924),
      (611, 611, 1, 404), (613, 613, 1, 42893), (614, 614, 1, 42922), (616, 616, 1, 407),
      (617, 617, 1, 406), (618, 618, 1, 42926), (619, 619, 1, 11362), (620, 620, 1, 42925),
      (623, 623, 1, 412), (625, 625, 1, 11374), (626, 626, 1, 413), (629, 629, 1, 415),
      (637, 637, 1, 11364), (640, 640, 1, 422), (642, 642, 1, 42949), (643, 643, 1, 425),
      (647, 647, 1, 42929), (648, 648, 1, 430), (649, 649, 1, 580), (650, 651, 1, 433),
      (652, 652, 1, 581), (658, 658, 1, 439), (669, 669, 1, 42930), (670, 670, 1, 42928),
      (837, 837, 1, 921), (881, 883, 2, 880), (887, 887, 1, 886), (891, 893, 1, 1021),
      (940, 940, 1, 902), (941, 943, 1, 904), (945, 961, 1, 913), (962, 962, 1, 931),
      (963, 971, 1, 931), (972, 972, 1, 908), (973, 974, 1, 910), (976, 976, 1, 914),
      (977, 977, 1, 920), (981, 981, 1, 934), (982, 982, 1, 928), (983, 983, 1, 975),
      (985, 1007, 2, 984), (1008, 1008, 1, 922), (1009, 1009, 1, 929), (1010, 1010, 1, 1017),
      (1011, 1011, 1, 895), (1013, 1013, 1, 917), (1016, 1016, 1, 1015), (1019, 1019, 1, 1018),
      (1072, 1103, 1, 1040), (1104, 1119, 1, 1024), (1121, 1153, 2, 1120),
      (1163, 1215, 2, 1162), (1218, 1230, 2, 1217), (1231, 1231, 1, 1216),
      (1233, 1327, 2, 1232), (1377, 1414, 1, 1329), (5112, 5117, 1, 5104),
      (7296, 7296, 1, 1042), (7297, 7297, 1, 1044), (7298, 7298, 1, 1054),
      (7299, 7300, 1, 1057), (7301, 7301, 1, 1058), (7302, 7302, 1, 1066),
      (7303, 7303, 1, 1122), (7304, 7304, 1, 42570), (7545, 7545, 1, 42877),
      (7549, 7549, 1, 11363), (7566, 7566, 1, 42950), (7681, 7829, 2, 7680),
      (7835, 7835, 1, 7776), (7841, 7935, 2, 7840), (7936, 7943, 1, 7944),
      (7952, 7957, 1, 7960), (7968, 7975, 1, 7976), (7984, 7991, 1, 7992),
      (8000, 8005, 1, 8008), (8017, 8023, 2, 8025), (8032, 8039, 1, 8040),
      (8048, 8049, 1, 8122), (8050, 8053, 1, 8136), (8054, 8055, 1, 8154),
      (8056, 8057, 1, 8184), (8058, 8059, 1, 8170), (8060, 8061, 1, 8186),
      (8064, 8071, 1, 8072), (8080, 8087, 1, 8088), (8096, 8103, 1, 8104),
      (8112, 8113, 1, 8120), (8115, 8115, 1, 8124), (8126, 8126, 1, 921),
      (8131, 8131, 1, 8140), (8144, 8145, 1, 8152), (8160, 8161, 1, 8168),
      (8165, 8165, 1, 8172), (8179, 8179, 1, 8188), (8526, 8526, 1, 8498),
      (8560, 8575, 1, 8544), (8580, 8580, 1, 8579), (9424, 9449, 1, 9398),
      (11312, 11359, 1, 11264), (11361, 11361, 1, 11360), (11365, 11365, 1, 570),
      (11366, 11366, 1, 574), (11368, 11372, 2, 11367), (11379, 11379, 1, 11378),
      (11382, 11382, 1, 11381), (11393, 11491, 2, 11392), (11500, 11502, 2, 11499),
      (11507, 11507, 1, 11506), (11520, 11557, 1, 4256), (11559, 11559, 1, 4295),
      (11565, 11565, 1, 4301), (42561, 42605, 2, 42560), (42625, 42651, 2, 42624),
      (42787, 42799, 2, 42786), (42803, 42863, 2, 42802), (42874, 42876, 2, 42873),
      (42879, 42887, 2, 42878), (42892, 42892, 1, 42891), (42897, 42899, 2, 42896),
      (42900, 42900, 1, 42948), (42903, 42921, 2, 42902), (42933, 42947, 2, 42932),
      (42952, 42954, 2, 42951), (42961, 42961, 1, 42960), (42967, 42969, 2, 42966),
      (42998, 42998, 1, 42997), (43859, 43859, 1, 42931), (43888, 43967, 1, 5024),
      (65345, 65370, 1, 65313), (66600, 66639, 1, 66560), (66776, 66811, 1, 66736),
      (66967, 66977, 1, 66928), (66979, 66993, 1, 66940), (66995, 67001, 1, 66956),
      (67003, 67004, 1, 66964), (68800, 68850, 1, 68736), (71872, 71903, 1, 71840),
      (93792, 93823, 1, 93760), (125218, 125251, 1, 125184)]"

definition title_special :: "(nat \<times> nat list) list" where
  "title_special =
     [(223, [83, 115]), (329, [700, 78]), (496, [74, 780]), (912, [921, 776, 769]),
      (944, [933, 776, 769]), (1415, [1333, 1410]), (7830, [72, 817]), (7831, [84, 776]),
      (7832, [87, 778]), (7833, [89, 778]), (7834, [65, 702]), (8016, [933, 787]),
      (8018, [933, 787, 768]), (8020, [933, 787, 769]), (8022, [933, 787, 834]),
      (8114, [8122, 837]), (8116, [902, 837]), (8118, [913, 834]), (8119, [913, 834, 837]),
      (8130, [8138, 837]), (8132, [905, 837]), (8134, [919, 834]), (8135, [919, 834, 837]),
      (8146, [921, 776, 768]), (8147, [921, 776, 769]), (8150, [921, 834]),
      (8151, [921, 776, 834]), (8162, [933, 776, 768]), (8163, [933, 776, 769]),
      (8164, [929, 787]), (8166, [933, 834]), (8167, [933, 776, 834]), (8178, [8186, 837]),
      (8180, [911, 837]), (8182, [937, 834]), (8183, [937, 834, 837]), (64256, [70, 102]),
      (64257, [70, 105]), (64258, [70, 108]), (64259, [70, 102, 105]), (64260, [70, 102, 108]),
      (64261, [83, 116]), (64262, [83, 116]), (64275, [1348, 1398]), (64276, [1348, 1381]),
      (64277, [1348, 1387]), (64278, [1358, 1398]), (64279, [1348, 1389])]"

definition to_title_full :: "nat \<Rightarrow> str" where
  "to_title_full c =
     (case special title_special c of Some cs \<Rightarrow> cs | None \<Rightarrow> [map_char title_table c])"

subsection \<open>String operations\<close>

text \<open>
  The lowercase form of the character \<open>c\<close> of a string, where \<open>left\<close> holds the characters
  in front of it, the nearest first, and \<open>right\<close> the characters behind it. A capital sigma
  becomes the final sigma \<open>0x3C2\<close> when, case-ignorable characters skipped, a cased
  character precedes it and no cased character follows it, and the small sigma \<open>0x3C3\<close>
  otherwise.
\<close>

definition final_sigma :: "str \<Rightarrow> str \<Rightarrow> bool" where
  "final_sigma left right =
     (case dropWhile is_case_ignorable left of
        [] \<Rightarrow> False
      | p # _ \<Rightarrow>
          is_cased p \<and>
          (case dropWhile is_case_ignorable right of
             [] \<Rightarrow> True
           | n # _ \<Rightarrow> \<not> is_cased n))"

definition lower_ucs4 :: "str \<Rightarrow> nat \<Rightarrow> str \<Rightarrow> str" where
  "lower_ucs4 left c right =
     (if c = 0x3A3 then [if final_sigma left right then 0x3C2 else 0x3C3]
      else to_lower_full c)"

text \<open>\<^verbatim>\<open>str.lower()\<close>.\<close>

fun lower_from :: "str \<Rightarrow> str \<Rightarrow> str" where
  "lower_from left [] = []"
| "lower_from left (c # cs) = lower_ucs4 left c cs @ lower_from (c # left) cs"

definition lower :: "str \<Rightarrow> str" where
  "lower s = lower_from [] s"

text \<open>
  \<^verbatim>\<open>str.title()\<close>: a character that follows a cased character is lowercased, any other
  character is titlecased.
\<close>

fun title_from :: "bool \<Rightarrow> str \<Rightarrow> str \<Rightarrow> str" where
  "title_from previous_is_cased left [] = []"
| "title_from previous_is_cased left (c # cs) =
     (if previous_is_cased then lower_ucs4 left c cs else to_title_full c)
       @ title_from (is_cased c) (c # left) cs"

definition title :: "str \<Rightarrow> str" where
  "title s = title_from False [] s"

text \<open>
  \<^verbatim>\<open>str.split()\<close> without arguments: the maximal runs of non-whitespace characters, in
  order. \<open>w\<close> is the token being read.
\<close>

fun split_from :: "str \<Rightarrow> str \<Rightarrow> str list" where
  "split_from w [] = (if w = [] then [] else [w])"
| "split_from w (c # cs) =
     (if isspace c then (if w = [] then split_from [] cs else w # split_from [] cs)
      else split_from (w @ [c]) cs)"

definition split :: "str \<Rightarrow> str list" where
  "split s = split_from [] s"

text \<open>\<^verbatim>\<open>sep.join(xs)\<close>.\<close>

fun join :: "str \<Rightarrow> str list \<Rightarrow> str" where
  "join sep [] = []"
| "join sep [x] = x"
| "join sep (x # y # ys) = x @ sep @ join sep (y # ys)"

text \<open>\<^verbatim>\<open>p in s\<close> for two strings: \<open>p\<close> occurs in \<open>s\<close> as a contiguous substring.\<close>

fun starts_with :: "str \<Rightarrow> str \<Rightarrow> bool" where
  "starts_with [] s = True"
| "starts_with (p # ps) [] = False"
| "starts_with (p # ps) (c # cs) = (p = c \<and> starts_with ps cs)"

fun substring :: "str \<Rightarrow> str \<Rightarrow> bool" where
  "substring p [] = (p = [])"
| "substring p (c # cs) = (starts_with p (c # cs) \<or> substring p cs)"

subsection \<open>JSON values\<close>

text \<open>
  What \<^verbatim>\<open>request.get_json()\<close> can return: \<^verbatim>\<open>None\<close>, a bool, a number, a \<^verbatim>\<open>str\<close>, a list or
  a dict. A dict is an association list whose keys are looked up with \<open>map_of\<close>; the
  dispatcher never inspects a number beyond its truth value, and the non-finite numbers
  that the parser accepts are true like every other non-zero number.
\<close>

datatype json =
    JNull
  | JBool bool
  | JNum real
  | JStr str
  | JArr "json list"
  | JObj "(str \<times> json) list"

datatype py_error = AttributeError | IndexError | TypeError

text \<open>Python truth value testing, as used by \<^verbatim>\<open>or\<close> (line 77) and \<^verbatim>\<open>and\<close> (line 145).\<close>

fun truthy :: "json \<Rightarrow> bool" where
  "truthy JNull = False"
| "truthy (JBool b) = b"
| "truthy (JNum r) = (r \<noteq> 0)"
| "truthy (JStr s) = (s \<noteq> [])"
| "truthy (JArr xs) = (xs \<noteq> [])"
| "truthy (JObj kvs) = (kvs \<noteq> [])"

subsection \<open>The operations applied to the request data\<close>

text \<open>
  \<^verbatim>\<open>k in data\<close> for a string \<open>k\<close>: key membership for a dict, element membership for a list,
  substring test for a string; any other value is not iterable and raises \<^verbatim>\<open>TypeError\<close>.
\<close>

fun py_in :: "str \<Rightarrow> json \<Rightarrow> py_error + bool" where
  "py_in k (JObj kvs) = Inr (map_of kvs k \<noteq> None)"
| "py_in k (JArr xs) = Inr (JStr k \<in> set xs)"
| "py_in k (JStr s) = Inr (substring k s)"
| "py_in k JNull = Inl TypeError"
| "py_in k (JBool b) = Inl TypeError"
| "py_in k (JNum r) = Inl TypeError"

text \<open>\<^verbatim>\<open>data.get(k, d)\<close>: only a dict has the method.\<close>

fun py_get :: "json \<Rightarrow> str \<Rightarrow> json \<Rightarrow> py_error + json" where
  "py_get (JObj kvs) k d = Inr (case map_of kvs k of Some v \<Rightarrow> v | None \<Rightarrow> d)"
| "py_get JNull k d = Inl AttributeError"
| "py_get (JBool b) k d = Inl AttributeError"
| "py_get (JNum r) k d = Inl AttributeError"
| "py_get (JStr s) k d = Inl AttributeError"
| "py_get (JArr xs) k d = Inl AttributeError"

text \<open>\<^verbatim>\<open>v.lower()\<close>: only a \<^verbatim>\<open>str\<close> has the method.\<close>

fun py_lower :: "json \<Rightarrow> py_error + str" where
  "py_lower (JStr s) = Inr (lower s)"
| "py_lower JNull = Inl AttributeError"
| "py_lower (JBool b) = Inl AttributeError"
| "py_lower (JNum r) = Inl AttributeError"
| "py_lower (JArr xs) = Inl AttributeError"
| "py_lower (JObj kvs) = Inl AttributeError"

text \<open>\<^verbatim>\<open>data.get(k, '').lower()\<close>, the expression of lines 86 and 87.\<close>

definition get_lower :: "json \<Rightarrow> str \<Rightarrow> py_error + str" where
  "get_lower data k =
     (case py_get data k (JStr []) of
        Inl e \<Rightarrow> Inl e
      | Inr v \<Rightarrow> py_lower v)"

subsection \<open>State and responses\<close>

record appointment =
  date :: str
  time :: str
  doctor :: str
  status :: str

record state =
  appointments :: "str \<rightharpoonup> appointment"
  available_slots :: "str list"

text \<open>The module globals as the file defines them (lines 21-44).\<close>

definition initial_state :: state where
  "initial_state =
     \<lparr>appointments =
        [ascii ''john smith'' \<mapsto>
           \<lparr>date = ascii ''2025-07-30'', time = ascii ''3:00 PM'', doctor = ascii ''Dr. Clark'',
            status = ascii ''scheduled''\<rparr>,
         ascii ''jane doe'' \<mapsto>
           \<lparr>date = ascii ''2025-07-29'', time = ascii ''10:00 AM'', doctor = ascii ''Dr. Martinez'',
            status = ascii ''scheduled''\<rparr>],
      available_slots =
        [ascii ''2025-07-29 2:00 PM'', ascii ''2025-07-30 10:00 AM'', ascii ''2025-07-30 4:00 PM'',
         ascii ''2025-07-31 9:00 AM'', ascii ''2025-07-31 1:00 PM'', ascii ''2025-08-01 11:00 AM'']\<rparr>"

text \<open>
  A response: the JSON body handed to \<^verbatim>\<open>jsonify\<close>, with its members in the order of the
  source, and the transport status (200 unless the handler returns another one).
\<close>

record response =
  body :: json
  http_status :: nat

definition jsonify :: "(str \<times> json) list \<Rightarrow> response" where
  "jsonify members = \<lparr>body = JObj members, http_status = 200\<rparr>"

subsection \<open>The branches of the dispatcher\<close>

text \<open>Lines 91-108. \<open>appointments st patient_name\<close> is \<open>Some apt\<close> exactly when
  \<^verbatim>\<open>patient_name in appointments\<close>.\<close>

definition lookup_appointment :: "state \<Rightarrow> str \<Rightarrow> (py_error + response) \<times> state" where
  "lookup_appointment st patient_name =
     (case appointments st patient_name of
        Some apt \<Rightarrow>
          (Inr (jsonify
             [(ascii ''status'', JStr (ascii ''success'')),
              (ascii ''message'', JStr (ascii ''Found appointment for '' @ title patient_name)),
              (ascii ''appointment'', JObj
                 [(ascii ''date'', JStr (date apt)),
                  (ascii ''time'', JStr (time apt)),
                  (ascii ''doctor'', JStr (doctor apt)),
                  (ascii ''status'', JStr (status apt))])]), st)
      | None \<Rightarrow>
          (Inr (jsonify
             [(ascii ''status'', JStr (ascii ''not_found'')),
              (ascii ''message'',
               JStr (ascii ''No appointment found for '' @ title patient_name))]), st))"

text \<open>Lines 110-115.\<close>

definition check_availability :: "state \<Rightarrow> (py_error + response) \<times> state" where
  "check_availability st =
     (Inr (jsonify
        [(ascii ''status'', JStr (ascii ''success'')),
         (ascii ''available_slots'', JArr (map JStr (take 3 (available_slots st)))),
         (ascii ''message'', JStr (ascii ''Here are some available times''))]), st)"

text \<open>Lines 117-128.\<close>

definition confirm_appointment :: "state \<Rightarrow> str \<Rightarrow> (py_error + response) \<times> state" where
  "confirm_appointment st patient_name =
     (case appointments st patient_name of
        Some apt \<Rightarrow>
          (Inr (jsonify
             [(ascii ''status'', JStr (ascii ''success'')),
              (ascii ''message'',
               JStr (ascii ''Appointment confirmed for '' @ title patient_name))]),
           st\<lparr>appointments :=
                (appointments st)(patient_name \<mapsto> apt\<lparr>status := ascii ''confirmed''\<rparr>)\<rparr>)
      | None \<Rightarrow>
          (Inr (jsonify
             [(ascii ''status'', JStr (ascii ''error'')),
              (ascii ''message'', JStr (ascii ''Appointment not found''))]), st))"

text \<open>Lines 130-141.\<close>

definition cancel_appointment :: "state \<Rightarrow> str \<Rightarrow> (py_error + response) \<times> state" where
  "cancel_appointment st patient_name =
     (case appointments st patient_name of
        Some apt \<Rightarrow>
          (Inr (jsonify
             [(ascii ''status'', JStr (ascii ''success'')),
              (ascii ''message'',
               JStr (ascii ''Appointment cancelled for '' @ title patient_name))]),
           st\<lparr>appointments :=
                (appointments st)(patient_name \<mapsto> apt\<lparr>status := ascii ''cancelled''\<rparr>)\<rparr>)
      | None \<Rightarrow>
          (Inr (jsonify
             [(ascii ''status'', JStr (ascii ''error'')),
              (ascii ''message'', JStr (ascii ''Appointment not found''))]), st))"

text \<open>
  Lines 143-156. The condition of line 145 is \<^verbatim>\<open>patient_name in appointments and new_time\<close>.
  Line 146 evaluates \<^verbatim>\<open>new_time.split()[0]\<close> before it assigns: a value that is not a
  \<^verbatim>\<open>str\<close> has no \<^verbatim>\<open>split\<close> (\<^verbatim>\<open>AttributeError\<close>), and an empty token list has no element 0
  (\<^verbatim>\<open>IndexError\<close>); in both cases nothing has been written yet. Line 147 then splits the
  same string again and cannot fail. The message of line 150 formats \<^verbatim>\<open>new_time\<close>, a
  \<^verbatim>\<open>str\<close> at that point, as it is.
\<close>

definition could_not_reschedule :: response where
  "could_not_reschedule =
     jsonify [(ascii ''status'', JStr (ascii ''error'')),
              (ascii ''message'', JStr (ascii ''Could not reschedule appointment''))]"

definition reschedule_appointment ::
    "state \<Rightarrow> json \<Rightarrow> str \<Rightarrow> (py_error + response) \<times> state" where
  "reschedule_appointment st data patient_name =
     (case py_get data (ascii ''appointment_time'') JNull of
        Inl e \<Rightarrow> (Inl e, st)
      | Inr new_time \<Rightarrow>
         (case appointments st patient_name of
            None \<Rightarrow> (Inr could_not_reschedule, st)
          | Some apt \<Rightarrow>
              if \<not> truthy new_time then (Inr could_not_reschedule, st)
              else
                (case new_time of
                   JStr s \<Rightarrow>
                     (case split s of
                        [] \<Rightarrow> (Inl IndexError, st)
                      | d # _ \<Rightarrow>
                          let apt1 = apt\<lparr>date := d\<rparr>;
                              apt2 = apt1\<lparr>time := join (ascii '' '') (tl (split s))\<rparr>
                          in (Inr (jsonify
                                [(ascii ''status'', JStr (ascii ''success'')),
                                 (ascii ''message'', JStr ((ascii ''Appointment rescheduled for '')
                                     @ title patient_name @ ascii '' to '' @ s))]),
                              st\<lparr>appointments := (appointments st)(patient_name \<mapsto> apt2)\<rparr>))
                 | _ \<Rightarrow> (Inl AttributeError, st))))"

text \<open>Lines 158-162.\<close>

definition unknown_action :: "state \<Rightarrow> str \<Rightarrow> (py_error + response) \<times> state" where
  "unknown_action st action =
     (Inr (jsonify
        [(ascii ''status'', JStr (ascii ''error'')),
         (ascii ''message'', JStr (ascii ''Unknown action: '' @ action))]), st)"

subsection \<open>The dispatcher\<close>

text \<open>Lines 91-162: the \<^verbatim>\<open>if\<close>/\<^verbatim>\<open>elif\<close> chain on \<^verbatim>\<open>action\<close>, in the order of the source.\<close>

definition dispatch :: "state \<Rightarrow> json \<Rightarrow> str \<Rightarrow> str \<Rightarrow> (py_error + response) \<times> state" where
  "dispatch st data action patient_name =
     (if action = (ascii ''lookup_appointment'') then lookup_appointment st patient_name
      else if action = (ascii ''check_availability'') then check_availability st
      else if action = (ascii ''confirm_appointment'') then confirm_appointment st patient_name
      else if action = (ascii ''cancel_appointment'') then cancel_appointment st patient_name
      else if action = (ascii ''reschedule_appointment'')
        then reschedule_appointment st data patient_name
      else unknown_action st action)"

definition telnyx_ack :: response where
  "telnyx_ack =
     jsonify [(ascii ''status'', JStr (ascii ''received'')),
              (ascii ''message'', JStr (ascii ''Telnyx webhook received successfully''))]"

text \<open>
  Line 80: \<^verbatim>\<open>'type' in data or 'event_type' in data\<close>. The second test is evaluated only
  when the first one is false.
\<close>

definition is_validation :: "json \<Rightarrow> py_error + bool" where
  "is_validation data =
     (case py_in (ascii ''type'') data of
        Inl e \<Rightarrow> Inl e
      | Inr True \<Rightarrow> Inr True
      | Inr False \<Rightarrow> py_in (ascii ''event_type'') data)"

text \<open>
  The body of the \<^verbatim>\<open>try\<close> block, lines 77-162. \<open>payload\<close> is the value of
  \<^verbatim>\<open>request.get_json()\<close>.
\<close>

definition try_block :: "state \<Rightarrow> json \<Rightarrow> (py_error + response) \<times> state" where
  "try_block st payload =
     (let data = (if truthy payload then payload else JObj []) in
      case is_validation data of
        Inl e \<Rightarrow> (Inl e, st)
      | Inr True \<Rightarrow> (Inr telnyx_ack, st)
      | Inr False \<Rightarrow>
         (case get_lower data (ascii ''action'') of
            Inl e \<Rightarrow> (Inl e, st)
          | Inr action \<Rightarrow>
             (case get_lower data (ascii ''patient_name'') of
                Inl e \<Rightarrow> (Inl e, st)
              | Inr patient_name \<Rightarrow> dispatch st data action patient_name)))"

text \<open>Lines 164-169: the response for any exception raised in the \<^verbatim>\<open>try\<close> block.\<close>

definition internal_server_error :: response where
  "internal_server_error =
     \<lparr>body = JObj [(ascii ''status'', JStr (ascii ''error'')),
                   (ascii ''message'', JStr (ascii ''Internal server error''))],
      http_status = 500\<rparr>"

definition handle_webhook_request :: "state \<Rightarrow> json \<Rightarrow> response \<times> state" where
  "handle_webhook_request st payload =
     (case try_block st payload of
        (Inr r, st') \<Rightarrow> (r, st')
      | (Inl e, st') \<Rightarrow> (internal_server_error, st'))"

text \<open>
  The states the server can be in: the globals as the module defines them, and the state
  left by any request handled in a state the server can be in.
\<close>

inductive reachable :: "state \<Rightarrow> bool" where
  initial: "reachable initial_state"
| request: "reachable st \<Longrightarrow> reachable (snd (handle_webhook_request st payload))"

section \<open>Properties\<close>

subsection \<open>Unfolding and evaluation\<close>

lemmas str_defs = ascii_def lower_def lower_ucs4_def to_lower_full_def to_title_full_def
  title_def split_def isspace_def is_cased_def is_case_ignorable_def final_sigma_def
  whitespace_def cased_def case_ignorable_def lower_table_def lower_special_def
  title_table_def title_special_def

lemmas branch_defs = lookup_appointment_def check_availability_def confirm_appointment_def
  cancel_appointment_def reschedule_appointment_def unknown_action_def jsonify_def
  could_not_reschedule_def

lemmas handler_defs = handle_webhook_request_def try_block_def is_validation_def get_lower_def
  dispatch_def telnyx_ack_def internal_server_error_def branch_defs

lemma dispatch_action:
  "dispatch st data (ascii ''lookup_appointment'') n = lookup_appointment st n"
  "dispatch st data (ascii ''check_availability'') n = check_availability st"
  "dispatch st data (ascii ''confirm_appointment'') n = confirm_appointment st n"
  "dispatch st data (ascii ''cancel_appointment'') n = cancel_appointment st n"
  "dispatch st data (ascii ''reschedule_appointment'') n = reschedule_appointment st data n"
  by (simp_all add: dispatch_def ascii_def)

lemma data_of_object: "(if truthy (JObj kvs) then JObj kvs else JObj []) = JObj kvs"
  by (cases kvs) simp_all

lemma is_validation_object:
  "is_validation (JObj kvs) =
     Inr (map_of kvs (ascii ''type'') \<noteq> None \<or> map_of kvs (ascii ''event_type'') \<noteq> None)"
  by (cases "map_of kvs (ascii ''type'')") (simp_all add: is_validation_def)

lemma try_block_dispatch:
  assumes "map_of kvs (ascii ''type'') = None" and "map_of kvs (ascii ''event_type'') = None"
    and "get_lower (JObj kvs) (ascii ''action'') = Inr a"
    and "get_lower (JObj kvs) (ascii ''patient_name'') = Inr n"
  shows "try_block st (JObj kvs) = dispatch st (JObj kvs) a n"
  unfolding try_block_def data_of_object is_validation_object Let_def
  using assms by simp

lemma handle_dispatch:
  assumes "map_of kvs (ascii ''type'') = None" and "map_of kvs (ascii ''event_type'') = None"
    and "get_lower (JObj kvs) (ascii ''action'') = Inr a"
    and "get_lower (JObj kvs) (ascii ''patient_name'') = Inr n"
    and "dispatch st (JObj kvs) a n = (Inr r, st')"
  shows "handle_webhook_request st (JObj kvs) = (r, st')"
  using assms by (simp add: handle_webhook_request_def try_block_dispatch)

lemma handle_dispatch_error:
  assumes "map_of kvs (ascii ''type'') = None" and "map_of kvs (ascii ''event_type'') = None"
    and "get_lower (JObj kvs) (ascii ''action'') = Inr a"
    and "get_lower (JObj kvs) (ascii ''patient_name'') = Inr n"
    and "dispatch st (JObj kvs) a n = (Inl e, st')"
  shows "handle_webhook_request st (JObj kvs) = (internal_server_error, st')"
  using assms by (simp add: handle_webhook_request_def try_block_dispatch)

lemma split_from_Nil_iff: "split_from w s = [] \<longleftrightarrow> w = [] \<and> (\<forall>c\<in>set s. isspace c)"
  by (induction s arbitrary: w) auto

lemma split_Nil_iff: "split s = [] \<longleftrightarrow> (\<forall>c\<in>set s. isspace c)"
  by (simp add: split_def split_from_Nil_iff)

lemma lookup_appointment_state: "snd (lookup_appointment st n) = st"
  by (simp add: lookup_appointment_def split: option.splits)

lemma check_availability_state: "snd (check_availability st) = st"
  by (simp add: check_availability_def)

lemma unknown_action_state: "snd (unknown_action st a) = st"
  by (simp add: unknown_action_def)

lemma confirm_appointment_frame:
  "available_slots (snd (confirm_appointment st n)) = available_slots st \<and>
   dom (appointments (snd (confirm_appointment st n))) = dom (appointments st)"
  by (auto simp add: confirm_appointment_def split: option.splits)

lemma cancel_appointment_frame:
  "available_slots (snd (cancel_appointment st n)) = available_slots st \<and>
   dom (appointments (snd (cancel_appointment st n))) = dom (appointments st)"
  by (auto simp add: cancel_appointment_def split: option.splits)

lemma reschedule_appointment_frame:
  "available_slots (snd (reschedule_appointment st data n)) = available_slots st \<and>
   dom (appointments (snd (reschedule_appointment st data n))) = dom (appointments st)"
proof (cases "py_get data (ascii ''appointment_time'') JNull")
  case (Inl e)
  then show ?thesis by (simp add: reschedule_appointment_def)
next
  case (Inr new_time)
  show ?thesis
  proof (cases "appointments st n")
    case None
    with Inr show ?thesis by (simp add: reschedule_appointment_def)
  next
    case (Some apt)
    show ?thesis
    proof (cases new_time)
      case (JStr s)
      with Inr Some show ?thesis
        by (cases "split s") (auto simp add: reschedule_appointment_def Let_def)
    qed (use Inr Some in \<open>simp_all add: reschedule_appointment_def\<close>)
  qed
qed

lemma dispatch_frame:
  "available_slots (snd (dispatch st data a n)) = available_slots st \<and>
   dom (appointments (snd (dispatch st data a n))) = dom (appointments st)"
  by (simp add: dispatch_def lookup_appointment_state check_availability_state
      unknown_action_state confirm_appointment_frame cancel_appointment_frame
      reschedule_appointment_frame)

lemma dispatch_changes:
  assumes "appointments (snd (dispatch st data a n)) \<noteq> appointments st"
  shows "a \<in> {ascii ''confirm_appointment'', ascii ''cancel_appointment'',
               ascii ''reschedule_appointment''}"
proof (rule ccontr)
  assume "\<not> ?thesis"
  then have "snd (dispatch st data a n) = st"
    by (simp add: dispatch_def lookup_appointment_state check_availability_state
        unknown_action_state)
  with assms show False by simp
qed

lemma try_block_cases:
  "snd (try_block st payload) = st \<or>
   (\<exists>a n. is_validation payload = Inr False \<and> get_lower payload (ascii ''action'') = Inr a \<and>
      snd (try_block st payload) = snd (dispatch st payload a n))"
proof (cases "truthy payload")
  case False
  then show ?thesis
    by (simp add: try_block_def is_validation_def get_lower_def lower_def dispatch_def ascii_def
        unknown_action_def)
next
  case True
  show ?thesis
  proof (cases "is_validation payload")
    case (Inl e)
    with True show ?thesis by (simp add: try_block_def)
  next
    case (Inr v)
    show ?thesis
    proof (cases v)
      case True
      with Inr \<open>truthy payload\<close> show ?thesis by (simp add: try_block_def)
    next
      case False
      with Inr \<open>truthy payload\<close> show ?thesis
        by (cases "get_lower payload (ascii ''action'')"; cases "get_lower payload (ascii ''patient_name'')")
           (auto simp add: try_block_def)
    qed
  qed
qed

lemma handle_snd: "snd (handle_webhook_request st payload) = snd (try_block st payload)"
  by (simp add: handle_webhook_request_def split: prod.splits sum.splits)

lemma handle_frame:
  "available_slots (snd (handle_webhook_request st payload)) = available_slots st \<and>
   dom (appointments (snd (handle_webhook_request st payload))) = dom (appointments st)"
proof -
  from try_block_cases [of st payload] show ?thesis
  proof
    assume "snd (try_block st payload) = st"
    then show ?thesis by (simp add: handle_snd)
  next
    assume "\<exists>a n. is_validation payload = Inr False \<and> get_lower payload (ascii ''action'') = Inr a \<and>
      snd (try_block st payload) = snd (dispatch st payload a n)"
    then obtain a n where "snd (try_block st payload) = snd (dispatch st payload a n)"
      by blast
    then show ?thesis by (simp add: handle_snd dispatch_frame)
  qed
qed

lemma reachable_slots: "reachable st \<Longrightarrow> available_slots st = available_slots initial_state"
  by (induction rule: reachable.induct) (simp_all add: handle_frame)


lemma try_block_object:
  "try_block st (JObj kvs) =
     (if map_of kvs (ascii ''type'') \<noteq> None \<or> map_of kvs (ascii ''event_type'') \<noteq> None
      then (Inr telnyx_ack, st)
      else case get_lower (JObj kvs) (ascii ''action'') of
             Inl e \<Rightarrow> (Inl e, st)
           | Inr action \<Rightarrow>
               (case get_lower (JObj kvs) (ascii ''patient_name'') of
                  Inl e \<Rightarrow> (Inl e, st)
                | Inr patient_name \<Rightarrow> dispatch st (JObj kvs) action patient_name))"
  unfolding try_block_def data_of_object is_validation_object Let_def by simp

lemma dispatch_reads_appointment_time:
  assumes "map_of kvs' (ascii ''appointment_time'') = map_of kvs (ascii ''appointment_time'')"
  shows "dispatch st (JObj kvs') a n = dispatch st (JObj kvs) a n"
  using assms by (simp add: dispatch_def reschedule_appointment_def)

text \<open>
  What \<open>get_lower\<close> returns on an object: the field is absent and the result is the empty
  string, or the field is a string and the result is its lowercase form.
\<close>

lemma get_lower_object:
  "get_lower (JObj kvs) k = Inr a \<longleftrightarrow>
     map_of kvs k = None \<and> a = [] \<or> (\<exists>s. map_of kvs k = Some (JStr s) \<and> a = lower s)"
proof (cases "map_of kvs k")
  case None
  then show ?thesis by (auto simp add: get_lower_def lower_def)
next
  case (Some v)
  then show ?thesis by (cases v) (auto simp add: get_lower_def)
qed

subsection \<open>What \<open>split\<close> computes\<close>

text \<open>
  Every token is non-empty and free of whitespace; when the string has a non-whitespace
  character, the first token is the run of non-whitespace characters that follows the
  leading whitespace, and the remaining tokens are the tokens of what follows that run.
\<close>

lemma split_from_tokens:
  "t \<in> set (split_from w s) \<Longrightarrow> \<forall>c\<in>set w. \<not> isspace c \<Longrightarrow>
     t \<noteq> [] \<and> (\<forall>c\<in>set t. \<not> isspace c)"
proof (induction s arbitrary: w)
  case Nil
  then show ?case by (auto split: if_splits)
next
  case (Cons c cs)
  show ?case
  proof (cases "isspace c")
    case True
    with Cons.prems have "t = w \<and> w \<noteq> [] \<or> t \<in> set (split_from [] cs)"
      by (auto split: if_splits)
    then show ?thesis
    proof
      assume "t = w \<and> w \<noteq> []"
      with Cons.prems(2) show ?thesis by simp
    next
      assume "t \<in> set (split_from [] cs)"
      then show ?thesis by (rule Cons.IH) simp
    qed
  next
    case False
    with Cons.prems(1) have "t \<in> set (split_from (w @ [c]) cs)" by simp
    then show ?thesis
      by (rule Cons.IH) (use False Cons.prems(2) in auto)
  qed
qed

lemma split_tokens: "t \<in> set (split s) \<Longrightarrow> t \<noteq> [] \<and> (\<forall>c\<in>set t. \<not> isspace c)"
  unfolding split_def by (erule split_from_tokens) simp

lemma split_from_started:
  "w \<noteq> [] \<Longrightarrow> split_from w s =
     (w @ takeWhile (\<lambda>c. \<not> isspace c) s) # split_from [] (dropWhile (\<lambda>c. \<not> isspace c) s)"
proof (induction s arbitrary: w)
  case Nil
  then show ?case by simp
next
  case (Cons c cs)
  show ?case
  proof (cases "isspace c")
    case True
    with Cons.prems show ?thesis by simp
  next
    case False
    have "split_from (w @ [c]) cs =
       ((w @ [c]) @ takeWhile (\<lambda>c. \<not> isspace c) cs)
         # split_from [] (dropWhile (\<lambda>c. \<not> isspace c) cs)"
      by (rule Cons.IH) simp
    with False show ?thesis by simp
  qed
qed

lemma split_leading_space: "split_from [] s = split_from [] (dropWhile isspace s)"
  by (induction s) simp_all

lemma split_first_token:
  assumes "\<exists>c\<in>set s. \<not> isspace c"
  shows "hd (split s) = takeWhile (\<lambda>c. \<not> isspace c) (dropWhile isspace s)"
    and "tl (split s) = split (dropWhile (\<lambda>c. \<not> isspace c) (dropWhile isspace s))"
proof -
  from assms have ne: "dropWhile isspace s \<noteq> []"
    by (simp add: dropWhile_eq_Nil_conv)
  then obtain c cs where rest: "dropWhile isspace s = c # cs"
    by (cases "dropWhile isspace s") auto
  from hd_dropWhile [OF ne] rest have c: "\<not> isspace c" by simp
  have "split s = split_from [] (c # cs)"
    unfolding split_def rest [symmetric] by (rule split_leading_space)
  also from c have "\<dots> = split_from [c] cs" by simp
  also have "\<dots> = ([c] @ takeWhile (\<lambda>c. \<not> isspace c) cs)
      # split_from [] (dropWhile (\<lambda>c. \<not> isspace c) cs)"
    by (rule split_from_started) simp
  finally have "split s = takeWhile (\<lambda>c. \<not> isspace c) (c # cs)
      # split (dropWhile (\<lambda>c. \<not> isspace c) (c # cs))"
    using c by (simp add: split_def)
  then show "hd (split s) = takeWhile (\<lambda>c. \<not> isspace c) (dropWhile isspace s)"
    and "tl (split s) = split (dropWhile (\<lambda>c. \<not> isspace c) (dropWhile isspace s))"
    by (simp_all add: rest)
qed

section \<open>The claims\<close>

text \<open>
  In the statements below a payload is a JSON object \<open>JObj kvs\<close>; \<open>k\<close> is one of its keys
  exactly when \<open>map_of kvs k \<noteq> None\<close>. A patient name \<open>name\<close> is a key of the registry
  exactly when \<open>appointments st name \<noteq> None\<close>. \<open>get_lower (JObj kvs) (ascii ''action'') = Inr a\<close>
  says that the \<^verbatim>\<open>action\<close> field is absent or a string and that \<open>a\<close> is its lowercased
  value (the empty string when it is absent); likewise for \<^verbatim>\<open>patient_name\<close>
  (lemma \<open>get_lower_object\<close>).
\<close>

subsection \<open>C1: a successful reschedule\<close>

text \<open>
  Claim C1, amended. For every payload without a \<^verbatim>\<open>type\<close> or \<^verbatim>\<open>event_type\<close> key, with
  action \<^verbatim>\<open>reschedule_appointment\<close>, whose lowercased \<^verbatim>\<open>patient_name\<close> is a key of the
  registry and whose \<^verbatim>\<open>appointment_time\<close> is a string with at least one non-whitespace
  character: the dispatcher overwrites the date of that record with the first
  whitespace-separated token of \<^verbatim>\<open>appointment_time\<close> and its time with the remaining
  tokens joined by single spaces, leaves the doctor, the status and every other record as
  they are, and returns the success response whose message ends with the
  \<^verbatim>\<open>appointment_time\<close> string exactly as given.
\<close>

theorem reschedule_appointment_success:
  assumes "map_of kvs (ascii ''type'') = None" and "map_of kvs (ascii ''event_type'') = None"
    and "get_lower (JObj kvs) (ascii ''action'') = Inr (ascii ''reschedule_appointment'')"
    and "get_lower (JObj kvs) (ascii ''patient_name'') = Inr name"
    and "appointments st name = Some apt"
    and "map_of kvs (ascii ''appointment_time'') = Some (JStr s)"
    and "\<exists>c\<in>set s. \<not> isspace c"
  shows "handle_webhook_request st (JObj kvs) =
     (\<lparr>body = JObj
         [(ascii ''status'', JStr (ascii ''success'')),
          (ascii ''message'', JStr (ascii ''Appointment rescheduled for '' @ title name @ ascii '' to '' @ s))],
       http_status = 200\<rparr>,
      st\<lparr>appointments := (appointments st)
           (name \<mapsto> apt\<lparr>date := hd (split s), time := join (ascii '' '') (tl (split s))\<rparr>)\<rparr>)"
proof -
  from assms(7) have "split s \<noteq> []" by (simp add: split_Nil_iff)
  then obtain d rest where toks: "split s = d # rest" by (cases "split s") auto
  from assms(7) have "s \<noteq> []" by auto
  with assms(5,6) toks have "dispatch st (JObj kvs) (ascii ''reschedule_appointment'') name =
     (Inr (jsonify
         [(ascii ''status'', JStr (ascii ''success'')),
          (ascii ''message'', JStr (ascii ''Appointment rescheduled for '' @ title name @ ascii '' to '' @ s))]),
      st\<lparr>appointments := (appointments st)
           (name \<mapsto> apt\<lparr>date := d, time := join (ascii '' '') rest\<rparr>)\<rparr>)"
    by (simp add: dispatch_action reschedule_appointment_def)
  from handle_dispatch [OF assms(1-4) this] toks show ?thesis
    by (simp add: jsonify_def)
qed

text \<open>
  The example of the specification, once with extra spaces in the time string and once with
  a no-break space and an em space as separators: the record gets the parsed date and
  time, the message keeps the string as given.
\<close>

theorem reschedule_appointment_success_witness:
  "handle_webhook_request initial_state
     (JObj [(ascii ''action'', JStr (ascii ''reschedule_appointment'')),
            (ascii ''patient_name'', JStr (ascii ''Jane Doe'')),
            (ascii ''appointment_time'', JStr (ascii ''2025-08-02   9:00 AM ''))]) =
     (\<lparr>body = JObj
         [(ascii ''status'', JStr (ascii ''success'')),
          (ascii ''message'', JStr (ascii
             ''Appointment rescheduled for Jane Doe to 2025-08-02   9:00 AM ''))],
       http_status = 200\<rparr>,
      initial_state\<lparr>appointments := (appointments initial_state)
         (ascii ''jane doe'' \<mapsto>
            \<lparr>date = ascii ''2025-08-02'', time = ascii ''9:00 AM'',
             doctor = ascii ''Dr. Martinez'', status = ascii ''scheduled''\<rparr>)\<rparr>)
   \<and> handle_webhook_request initial_state
     (JObj [(ascii ''action'', JStr (ascii ''reschedule_appointment'')),
            (ascii ''patient_name'', JStr (ascii ''Jane Doe'')),
            (ascii ''appointment_time'',
             JStr (ascii ''2025-08-02'' @ [0xA0] @ ascii ''9:00'' @ [0x2003] @ ascii ''AM''))]) =
     (\<lparr>body = JObj
         [(ascii ''status'', JStr (ascii ''success'')),
          (ascii ''message'', JStr (ascii ''Appointment rescheduled for Jane Doe to ''
             @ ascii ''2025-08-02'' @ [0xA0] @ ascii ''9:00'' @ [0x2003] @ ascii ''AM''))],
       http_status = 200\<rparr>,
      initial_state\<lparr>appointments := (appointments initial_state)
         (ascii ''jane doe'' \<mapsto>
            \<lparr>date = ascii ''2025-08-02'', time = ascii ''9:00 AM'',
             doctor = ascii ''Dr. Martinez'', status = ascii ''scheduled''\<rparr>)\<rparr>)"
proof -
  let ?t = "ascii ''2025-08-02   9:00 AM ''"
  let ?u = "ascii ''2025-08-02'' @ [0xA0] @ ascii ''9:00'' @ [0x2003] @ ascii ''AM''"
  let ?kvs = "[(ascii ''action'', JStr (ascii ''reschedule_appointment'')),
               (ascii ''patient_name'', JStr (ascii ''Jane Doe'')),
               (ascii ''appointment_time'', JStr ?t)]"
  let ?kvu = "[(ascii ''action'', JStr (ascii ''reschedule_appointment'')),
               (ascii ''patient_name'', JStr (ascii ''Jane Doe'')),
               (ascii ''appointment_time'', JStr ?u)]"
  let ?apt = "\<lparr>date = ascii ''2025-07-29'', time = ascii ''10:00 AM'',
               doctor = ascii ''Dr. Martinez'', status = ascii ''scheduled''\<rparr>"
  have h1: "map_of ?kvs (ascii ''type'') = None" and h2: "map_of ?kvs (ascii ''event_type'') = None"
    and h3: "get_lower (JObj ?kvs) (ascii ''action'') = Inr (ascii ''reschedule_appointment'')"
    and h4: "get_lower (JObj ?kvs) (ascii ''patient_name'') = Inr (ascii ''jane doe'')"
    and h5: "appointments initial_state (ascii ''jane doe'') = Some ?apt"
    and h6: "map_of ?kvs (ascii ''appointment_time'') = Some (JStr ?t)"
    and h7: "\<exists>c\<in>set ?t. \<not> isspace c"
    by (simp_all add: get_lower_def str_defs initial_state_def)
  have u1: "map_of ?kvu (ascii ''type'') = None" and u2: "map_of ?kvu (ascii ''event_type'') = None"
    and u3: "get_lower (JObj ?kvu) (ascii ''action'') = Inr (ascii ''reschedule_appointment'')"
    and u4: "get_lower (JObj ?kvu) (ascii ''patient_name'') = Inr (ascii ''jane doe'')"
    and u6: "map_of ?kvu (ascii ''appointment_time'') = Some (JStr ?u)"
    and u7: "\<exists>c\<in>set ?u. \<not> isspace c"
    by (simp_all add: get_lower_def str_defs initial_state_def)
  have e: "title (ascii ''jane doe'') = ascii ''Jane Doe''"
    "split ?t = [ascii ''2025-08-02'', ascii ''9:00'', ascii ''AM'']"
    "split ?u = [ascii ''2025-08-02'', ascii ''9:00'', ascii ''AM'']"
    by (simp_all add: str_defs)
  from reschedule_appointment_success [OF h1 h2 h3 h4 h5 h6 h7]
       reschedule_appointment_success [OF u1 u2 u3 u4 h5 u6 u7] e
  show ?thesis by (simp add: ascii_def)
qed

text \<open>
  Claim C1 as stated fails at two payloads. A time string consisting of one space is a
  non-empty string, yet it has no token: the response is the internal fault and the
  record keeps its date. A payload that also has a \<^verbatim>\<open>type\<close> key is acknowledged as a
  validation ping and the record keeps its date.
\<close>

theorem reschedule_blank_time_or_ping:
  "get_lower (JObj [(ascii ''action'', JStr (ascii ''reschedule_appointment'')),
                    (ascii ''patient_name'', JStr (ascii ''Jane Doe'')),
                    (ascii ''appointment_time'', JStr (ascii '' ''))]) (ascii ''action'')
     = Inr (ascii ''reschedule_appointment'')
   \<and> get_lower (JObj [(ascii ''action'', JStr (ascii ''reschedule_appointment'')),
                    (ascii ''patient_name'', JStr (ascii ''Jane Doe'')),
                    (ascii ''appointment_time'', JStr (ascii '' ''))]) (ascii ''patient_name'')
     = Inr (ascii ''jane doe'')
   \<and> appointments initial_state (ascii ''jane doe'') \<noteq> None
   \<and> handle_webhook_request initial_state
        (JObj [(ascii ''action'', JStr (ascii ''reschedule_appointment'')),
               (ascii ''patient_name'', JStr (ascii ''Jane Doe'')),
               (ascii ''appointment_time'', JStr (ascii '' ''))]) =
       (\<lparr>body = JObj [(ascii ''status'', JStr (ascii ''error'')),
                      (ascii ''message'', JStr (ascii ''Internal server error''))],
         http_status = 500\<rparr>, initial_state)
   \<and> handle_webhook_request initial_state
        (JObj [(ascii ''type'', JStr (ascii ''ping'')),
               (ascii ''action'', JStr (ascii ''reschedule_appointment'')),
               (ascii ''patient_name'', JStr (ascii ''Jane Doe'')),
               (ascii ''appointment_time'', JStr (ascii ''2025-08-02 9:00 AM''))]) =
       (\<lparr>body = JObj [(ascii ''status'', JStr (ascii ''received'')),
                      (ascii ''message'', JStr (ascii ''Telnyx webhook received successfully''))],
         http_status = 200\<rparr>, initial_state)"
  by (simp add: handler_defs str_defs initial_state_def)

subsection \<open>C2: a reschedule with a whitespace-only time\<close>

text \<open>
  Claim C2, amended. For every payload without a \<^verbatim>\<open>type\<close> or \<^verbatim>\<open>event_type\<close> key, with
  action \<^verbatim>\<open>reschedule_appointment\<close>, whose lowercased \<^verbatim>\<open>patient_name\<close> is a key of the
  registry and whose \<^verbatim>\<open>appointment_time\<close> is a non-empty string of whitespace only: taking
  element 0 of the empty token list raises \<^verbatim>\<open>IndexError\<close> inside the \<^verbatim>\<open>try\<close> block, the
  response is the generic internal-server-error body with transport status 500, not the
  business error of the reschedule branch, and the state is unchanged.
\<close>

theorem reschedule_blank_time_faults:
  assumes "map_of kvs (ascii ''type'') = None" and "map_of kvs (ascii ''event_type'') = None"
    and "get_lower (JObj kvs) (ascii ''action'') = Inr (ascii ''reschedule_appointment'')"
    and "get_lower (JObj kvs) (ascii ''patient_name'') = Inr name"
    and "appointments st name \<noteq> None"
    and "map_of kvs (ascii ''appointment_time'') = Some (JStr s)"
    and "s \<noteq> []" and "\<forall>c\<in>set s. isspace c"
  shows "try_block st (JObj kvs) = (Inl IndexError, st)
       \<and> handle_webhook_request st (JObj kvs) =
           (\<lparr>body = JObj [(ascii ''status'', JStr (ascii ''error'')),
                          (ascii ''message'', JStr (ascii ''Internal server error''))],
             http_status = 500\<rparr>, st)
       \<and> fst (handle_webhook_request st (JObj kvs)) \<noteq> could_not_reschedule"
proof -
  from assms(8) have "split s = []" by (simp add: split_Nil_iff)
  with assms(5-7) have d: "dispatch st (JObj kvs) (ascii ''reschedule_appointment'') name =
      (Inl IndexError, st)"
    by (auto simp add: dispatch_action reschedule_appointment_def)
  with assms(1-4) have "try_block st (JObj kvs) = (Inl IndexError, st)"
    by (simp add: try_block_dispatch)
  moreover from handle_dispatch_error [OF assms(1-4) d]
  have "handle_webhook_request st (JObj kvs) = (internal_server_error, st)" .
  ultimately show ?thesis
    by (simp add: internal_server_error_def could_not_reschedule_def jsonify_def)
qed

text \<open>
  A time string made of a space, a tab, a no-break space, a next-line character and an
  ideographic space, for a patient in the registry.
\<close>

theorem reschedule_blank_time_faults_witness:
  "handle_webhook_request initial_state
     (JObj [(ascii ''action'', JStr (ascii ''reschedule_appointment'')),
            (ascii ''patient_name'', JStr (ascii ''Jane Doe'')),
            (ascii ''appointment_time'', JStr [0x20, 0x09, 0xA0, 0x85, 0x3000])]) =
     (\<lparr>body = JObj [(ascii ''status'', JStr (ascii ''error'')),
                    (ascii ''message'', JStr (ascii ''Internal server error''))],
       http_status = 500\<rparr>, initial_state)"
proof -
  let ?kvs = "[(ascii ''action'', JStr (ascii ''reschedule_appointment'')),
               (ascii ''patient_name'', JStr (ascii ''Jane Doe'')),
               (ascii ''appointment_time'', JStr [0x20, 0x09, 0xA0, 0x85, 0x3000])]"
  have h1: "map_of ?kvs (ascii ''type'') = None" and h2: "map_of ?kvs (ascii ''event_type'') = None"
    and h3: "get_lower (JObj ?kvs) (ascii ''action'') = Inr (ascii ''reschedule_appointment'')"
    and h4: "get_lower (JObj ?kvs) (ascii ''patient_name'') = Inr (ascii ''jane doe'')"
    and h5: "appointments initial_state (ascii ''jane doe'') \<noteq> None"
    and h6: "map_of ?kvs (ascii ''appointment_time'') = Some (JStr [0x20, 0x09, 0xA0, 0x85, 0x3000])"
    and h7: "[0x20, 0x09, 0xA0, 0x85, 0x3000] \<noteq> []"
    and h8: "\<forall>c\<in>set [0x20, 0x09, 0xA0, 0x85, 0x3000]. isspace c"
    by (simp_all add: get_lower_def str_defs initial_state_def)
  from reschedule_blank_time_faults [OF h1 h2 h3 h4 h5 h6 h7 h8] show ?thesis
    by simp
qed

text \<open>
  Claim C2 as stated fails when the payload also has a \<^verbatim>\<open>type\<close> key: the time string is
  never split, and the response is the acknowledgment with transport status 200.
\<close>

theorem reschedule_blank_time_behind_ping:
  "get_lower (JObj [(ascii ''type'', JStr (ascii ''ping'')),
                    (ascii ''action'', JStr (ascii ''reschedule_appointment'')),
                    (ascii ''patient_name'', JStr (ascii ''Jane Doe'')),
                    (ascii ''appointment_time'', JStr (ascii '' ''))]) (ascii ''action'')
     = Inr (ascii ''reschedule_appointment'')
   \<and> get_lower (JObj [(ascii ''type'', JStr (ascii ''ping'')),
                      (ascii ''action'', JStr (ascii ''reschedule_appointment'')),
                    (ascii ''patient_name'', JStr (ascii ''Jane Doe'')),
                    (ascii ''appointment_time'', JStr (ascii '' ''))]) (ascii ''patient_name'')
     = Inr (ascii ''jane doe'')
   \<and> appointments initial_state (ascii ''jane doe'') \<noteq> None
   \<and> split (ascii '' '') = []
   \<and> handle_webhook_request initial_state
        (JObj [(ascii ''type'', JStr (ascii ''ping'')),
               (ascii ''action'', JStr (ascii ''reschedule_appointment'')),
               (ascii ''patient_name'', JStr (ascii ''Jane Doe'')),
               (ascii ''appointment_time'', JStr (ascii '' ''))]) =
       (\<lparr>body = JObj [(ascii ''status'', JStr (ascii ''received'')),
                      (ascii ''message'', JStr (ascii ''Telnyx webhook received successfully''))],
         http_status = 200\<rparr>, initial_state)"
  by (simp add: handler_defs str_defs initial_state_def)

subsection \<open>C3: validation pings\<close>

text \<open>
  Claim C3. For every payload that has the key \<^verbatim>\<open>type\<close> or the key \<^verbatim>\<open>event_type\<close>, whatever
  its value and whatever else the payload contains, the dispatcher returns the fixed
  acknowledgment and leaves the state unchanged.
\<close>

theorem validation_ping_acknowledged:
  assumes "map_of kvs (ascii ''type'') \<noteq> None \<or> map_of kvs (ascii ''event_type'') \<noteq> None"
  shows "handle_webhook_request st (JObj kvs) =
     (\<lparr>body = JObj [(ascii ''status'', JStr (ascii ''received'')),
                    (ascii ''message'', JStr (ascii ''Telnyx webhook received successfully''))],
       http_status = 200\<rparr>, st)"
proof -
  have "try_block st (JObj kvs) = (Inr telnyx_ack, st)"
    unfolding try_block_def data_of_object is_validation_object Let_def
    using assms by auto
  then show ?thesis
    by (simp add: handle_webhook_request_def telnyx_ack_def jsonify_def)
qed

text \<open>
  A payload with \<^verbatim>\<open>event_type\<close> \<^verbatim>\<open>null\<close> and a cancel action for a patient in the registry:
  the appointment is not cancelled.
\<close>

theorem validation_ping_acknowledged_witness:
  "map_of [(ascii ''event_type'', JNull), (ascii ''action'', JStr (ascii ''cancel_appointment'')),
           (ascii ''patient_name'', JStr (ascii ''John Smith''))] (ascii ''event_type'') = Some JNull
   \<and> handle_webhook_request initial_state
        (JObj [(ascii ''event_type'', JNull),
               (ascii ''action'', JStr (ascii ''cancel_appointment'')),
               (ascii ''patient_name'', JStr (ascii ''John Smith''))]) =
       (\<lparr>body = JObj [(ascii ''status'', JStr (ascii ''received'')),
                      (ascii ''message'', JStr (ascii ''Telnyx webhook received successfully''))],
         http_status = 200\<rparr>, initial_state)"
proof -
  let ?kvs = "[(ascii ''event_type'', JNull),
               (ascii ''action'', JStr (ascii ''cancel_appointment'')),
               (ascii ''patient_name'', JStr (ascii ''John Smith''))]"
  have h: "map_of ?kvs (ascii ''type'') \<noteq> None \<or> map_of ?kvs (ascii ''event_type'') \<noteq> None"
    by simp
  from validation_ping_acknowledged [OF h, of initial_state] show ?thesis
    by simp
qed

subsection \<open>C4: lookup\<close>

text \<open>
  Claim C4, amended. For every payload without a \<^verbatim>\<open>type\<close> or \<^verbatim>\<open>event_type\<close> key and with
  action \<^verbatim>\<open>lookup_appointment\<close>: if the lowercased \<^verbatim>\<open>patient_name\<close> is a key of the
  registry, the response is the success body whose appointment object carries the date,
  time, doctor and status of the stored record; if it is not a key, the response is the
  \<^verbatim>\<open>not_found\<close> body. The name in the message is the title-cased lowercased name, and the
  state is unchanged in both cases.
\<close>

theorem lookup_appointment_response:
  assumes "map_of kvs (ascii ''type'') = None" and "map_of kvs (ascii ''event_type'') = None"
    and "get_lower (JObj kvs) (ascii ''action'') = Inr (ascii ''lookup_appointment'')"
    and "get_lower (JObj kvs) (ascii ''patient_name'') = Inr name"
  shows "(appointments st name = Some apt \<longrightarrow>
            handle_webhook_request st (JObj kvs) =
              (\<lparr>body = JObj
                  [(ascii ''status'', JStr (ascii ''success'')),
                   (ascii ''message'', JStr (ascii ''Found appointment for '' @ title name)),
                   (ascii ''appointment'', JObj
                      [(ascii ''date'', JStr (date apt)), (ascii ''time'', JStr (time apt)),
                       (ascii ''doctor'', JStr (doctor apt)),
                       (ascii ''status'', JStr (status apt))])],
                http_status = 200\<rparr>, st))
       \<and> (appointments st name = None \<longrightarrow>
            handle_webhook_request st (JObj kvs) =
              (\<lparr>body = JObj
                  [(ascii ''status'', JStr (ascii ''not_found'')),
                   (ascii ''message'', JStr (ascii ''No appointment found for '' @ title name))],
                http_status = 200\<rparr>, st))"
proof -
  have "handle_webhook_request st (JObj kvs) =
      (case lookup_appointment st name of (Inr r, st') \<Rightarrow> (r, st')
       | (Inl e, st') \<Rightarrow> (internal_server_error, st'))"
    using assms by (simp add: handle_webhook_request_def try_block_dispatch dispatch_action)
  then show ?thesis
    by (simp add: lookup_appointment_def jsonify_def)
qed

text \<open>
  A patient of the initial registry, looked up in upper case, and an unknown patient whose
  name has accented letters: both are lowercased and title-cased as Python does.
\<close>

theorem lookup_appointment_response_witness:
  "handle_webhook_request initial_state
     (JObj [(ascii ''action'', JStr (ascii ''Lookup_Appointment'')),
            (ascii ''patient_name'', JStr (ascii ''JOHN SMITH''))]) =
     (\<lparr>body = JObj
         [(ascii ''status'', JStr (ascii ''success'')),
          (ascii ''message'', JStr (ascii ''Found appointment for John Smith'')),
          (ascii ''appointment'', JObj
             [(ascii ''date'', JStr (ascii ''2025-07-30'')),
              (ascii ''time'', JStr (ascii ''3:00 PM'')),
              (ascii ''doctor'', JStr (ascii ''Dr. Clark'')),
              (ascii ''status'', JStr (ascii ''scheduled''))])],
       http_status = 200\<rparr>, initial_state)
   \<and> handle_webhook_request initial_state
     (JObj [(ascii ''action'', JStr (ascii ''lookup_appointment'')),
            (ascii ''patient_name'',
             JStr (ascii ''JOS'' @ [0xC9] @ ascii '' '' @ [0xE1] @ ascii ''LVAREZ''))]) =
     (\<lparr>body = JObj
         [(ascii ''status'', JStr (ascii ''not_found'')),
          (ascii ''message'', JStr (ascii ''No appointment found for ''
             @ ascii ''Jos'' @ [0xE9] @ ascii '' '' @ [0xC1] @ ascii ''lvarez''))],
       http_status = 200\<rparr>, initial_state)"
proof -
  let ?found = "[(ascii ''action'', JStr (ascii ''Lookup_Appointment'')),
                 (ascii ''patient_name'', JStr (ascii ''JOHN SMITH''))]"
  let ?missing = "[(ascii ''action'', JStr (ascii ''lookup_appointment'')),
                   (ascii ''patient_name'',
                    JStr (ascii ''JOS'' @ [0xC9] @ ascii '' '' @ [0xE1] @ ascii ''LVAREZ''))]"
  let ?jose = "ascii ''jos'' @ [0xE9] @ ascii '' '' @ [0xE1] @ ascii ''lvarez''"
  let ?apt = "\<lparr>date = ascii ''2025-07-30'', time = ascii ''3:00 PM'',
               doctor = ascii ''Dr. Clark'', status = ascii ''scheduled''\<rparr>"
  have f1: "map_of ?found (ascii ''type'') = None"
    and f2: "map_of ?found (ascii ''event_type'') = None"
    and f3: "get_lower (JObj ?found) (ascii ''action'') = Inr (ascii ''lookup_appointment'')"
    and f4: "get_lower (JObj ?found) (ascii ''patient_name'') = Inr (ascii ''john smith'')"
    and f5: "appointments initial_state (ascii ''john smith'') = Some ?apt"
    by (simp_all add: get_lower_def str_defs initial_state_def)
  have m1: "map_of ?missing (ascii ''type'') = None"
    and m2: "map_of ?missing (ascii ''event_type'') = None"
    and m3: "get_lower (JObj ?missing) (ascii ''action'') = Inr (ascii ''lookup_appointment'')"
    and m4: "get_lower (JObj ?missing) (ascii ''patient_name'') = Inr ?jose"
    and m5: "appointments initial_state ?jose = None"
    by (simp_all add: get_lower_def str_defs initial_state_def)
  have t1: "title (ascii ''john smith'') = ascii ''John Smith''"
    and t2: "title ?jose = ascii ''Jos'' @ [0xE9] @ ascii '' '' @ [0xC1] @ ascii ''lvarez''"
    by (simp_all add: str_defs)
  from lookup_appointment_response [OF f1 f2 f3 f4, of initial_state ?apt]
       lookup_appointment_response [OF m1 m2 m3 m4, of initial_state]
       f5 m5 t1 t2
  show ?thesis by (simp add: ascii_def)
qed

text \<open>
  Claim C4 as stated fails when the payload also has a \<^verbatim>\<open>type\<close> key: the patient is in the
  registry, and the response is the acknowledgment, not the appointment.
\<close>

theorem lookup_behind_validation_ping:
  "get_lower (JObj [(ascii ''type'', JStr (ascii ''ping'')),
                    (ascii ''action'', JStr (ascii ''lookup_appointment'')),
                    (ascii ''patient_name'', JStr (ascii ''john smith''))]) (ascii ''action'')
     = Inr (ascii ''lookup_appointment'')
   \<and> get_lower (JObj [(ascii ''type'', JStr (ascii ''ping'')),
                      (ascii ''action'', JStr (ascii ''lookup_appointment'')),
                    (ascii ''patient_name'', JStr (ascii ''john smith''))]) (ascii ''patient_name'')
     = Inr (ascii ''john smith'')
   \<and> appointments initial_state (ascii ''john smith'') \<noteq> None
   \<and> handle_webhook_request initial_state
        (JObj [(ascii ''type'', JStr (ascii ''ping'')),
               (ascii ''action'', JStr (ascii ''lookup_appointment'')),
               (ascii ''patient_name'', JStr (ascii ''john smith''))]) =
       (\<lparr>body = JObj [(ascii ''status'', JStr (ascii ''received'')),
                      (ascii ''message'', JStr (ascii ''Telnyx webhook received successfully''))],
         http_status = 200\<rparr>, initial_state)"
  by (simp add: handler_defs str_defs initial_state_def)

subsection \<open>C5: availability\<close>

text \<open>
  Claim C5, amended. For every payload without a \<^verbatim>\<open>type\<close> or \<^verbatim>\<open>event_type\<close> key, with
  action \<^verbatim>\<open>check_availability\<close> and whose \<^verbatim>\<open>patient_name\<close> is absent or a string, the
  response is the success body whose \<^verbatim>\<open>available_slots\<close> are the first three entries of the
  slot list, in order, whatever else the payload contains, and the state is unchanged. In
  every state the server can be in, these are the first three slots of the module's list.
\<close>

theorem check_availability_response:
  assumes "map_of kvs (ascii ''type'') = None" and "map_of kvs (ascii ''event_type'') = None"
    and "get_lower (JObj kvs) (ascii ''action'') = Inr (ascii ''check_availability'')"
    and "get_lower (JObj kvs) (ascii ''patient_name'') = Inr name"
  shows "handle_webhook_request st (JObj kvs) =
     (\<lparr>body = JObj
         [(ascii ''status'', JStr (ascii ''success'')),
          (ascii ''available_slots'', JArr (map JStr (take 3 (available_slots st)))),
          (ascii ''message'', JStr (ascii ''Here are some available times''))],
       http_status = 200\<rparr>, st)
     \<and> (reachable st \<longrightarrow>
          take 3 (available_slots st) =
            [ascii ''2025-07-29 2:00 PM'', ascii ''2025-07-30 10:00 AM'', ascii ''2025-07-30 4:00 PM''])"
proof -
  have "dispatch st (JObj kvs) (ascii ''check_availability'') name = check_availability st"
    by (simp add: dispatch_action)
  then have "handle_webhook_request st (JObj kvs) =
     (\<lparr>body = JObj
         [(ascii ''status'', JStr (ascii ''success'')),
          (ascii ''available_slots'', JArr (map JStr (take 3 (available_slots st)))),
          (ascii ''message'', JStr (ascii ''Here are some available times''))],
       http_status = 200\<rparr>, st)"
    using assms
    by (simp add: handle_webhook_request_def try_block_dispatch check_availability_def
        jsonify_def)
  moreover have "reachable st \<longrightarrow> take 3 (available_slots st) =
      [ascii ''2025-07-29 2:00 PM'', ascii ''2025-07-30 10:00 AM'', ascii ''2025-07-30 4:00 PM'']"
    by (auto simp add: initial_state_def dest: reachable_slots)
  ultimately show ?thesis by blast
qed

text \<open>A payload with a date and a doctor, in the initial state.\<close>

theorem check_availability_response_witness:
  "reachable initial_state
   \<and> handle_webhook_request initial_state
     (JObj [(ascii ''action'', JStr (ascii ''CHECK_AVAILABILITY'')),
            (ascii ''date'', JStr (ascii ''2025-07-31'')),
            (ascii ''doctor'', JStr (ascii ''Dr. Clark''))]) =
     (\<lparr>body = JObj
         [(ascii ''status'', JStr (ascii ''success'')),
          (ascii ''available_slots'', JArr [JStr (ascii ''2025-07-29 2:00 PM''), JStr (ascii ''2025-07-30 10:00 AM''),
                                      JStr (ascii ''2025-07-30 4:00 PM'')]),
          (ascii ''message'', JStr (ascii ''Here are some available times''))],
       http_status = 200\<rparr>, initial_state)"
proof -
  let ?kvs = "[(ascii ''action'', JStr (ascii ''CHECK_AVAILABILITY'')),
               (ascii ''date'', JStr (ascii ''2025-07-31'')),
               (ascii ''doctor'', JStr (ascii ''Dr. Clark''))]"
  have h1: "map_of ?kvs (ascii ''type'') = None" and h2: "map_of ?kvs (ascii ''event_type'') = None"
    and h3: "get_lower (JObj ?kvs) (ascii ''action'') = Inr (ascii ''check_availability'')"
    and h4: "get_lower (JObj ?kvs) (ascii ''patient_name'') = Inr []"
    by (simp_all add: get_lower_def str_defs)
  from check_availability_response [OF h1 h2 h3 h4, of initial_state] reachable.initial
  show ?thesis by (simp add: initial_state_def)
qed

text \<open>
  Claim C5 as stated fails at two payloads with action \<^verbatim>\<open>check_availability\<close>: one that
  also has a \<^verbatim>\<open>type\<close> key is acknowledged as a validation ping, and one whose
  \<^verbatim>\<open>patient_name\<close> is \<^verbatim>\<open>null\<close> gets the internal fault, since line 87 lowercases the
  patient name before the action is looked at.
\<close>

theorem check_availability_depends_on_payload:
  "get_lower (JObj [(ascii ''type'', JStr (ascii ''ping'')),
                    (ascii ''action'', JStr (ascii ''check_availability''))])
      (ascii ''action'') = Inr (ascii ''check_availability'')
   \<and> handle_webhook_request initial_state
        (JObj [(ascii ''type'', JStr (ascii ''ping'')),
               (ascii ''action'', JStr (ascii ''check_availability''))]) =
       (\<lparr>body = JObj [(ascii ''status'', JStr (ascii ''received'')),
                      (ascii ''message'', JStr (ascii ''Telnyx webhook received successfully''))],
         http_status = 200\<rparr>, initial_state)
   \<and> get_lower (JObj [(ascii ''action'', JStr (ascii ''check_availability'')),
                      (ascii ''patient_name'', JNull)])
      (ascii ''action'') = Inr (ascii ''check_availability'')
   \<and> handle_webhook_request initial_state
        (JObj [(ascii ''action'', JStr (ascii ''check_availability'')),
               (ascii ''patient_name'', JNull)]) =
       (\<lparr>body = JObj [(ascii ''status'', JStr (ascii ''error'')),
                      (ascii ''message'', JStr (ascii ''Internal server error''))],
         http_status = 500\<rparr>, initial_state)"
  by (simp add: handler_defs str_defs initial_state_def)

subsection \<open>C6: confirm and cancel\<close>

text \<open>
  Claim C6, amended. For every payload without a \<^verbatim>\<open>type\<close> or \<^verbatim>\<open>event_type\<close> key and with
  action \<^verbatim>\<open>confirm_appointment\<close> (respectively \<^verbatim>\<open>cancel_appointment\<close>): if the lowercased
  \<^verbatim>\<open>patient_name\<close> is a key of the registry, the status of that record becomes
  \<^verbatim>\<open>confirmed\<close> (respectively \<^verbatim>\<open>cancelled\<close>), its date, time and doctor and every other
  record stay as they are, and the response is the success body naming the title-cased
  patient; if it is not a key, the response is the error body \<^verbatim>\<open>Appointment not found\<close> and
  the state is unchanged.
\<close>

theorem confirm_cancel_response:
  assumes "map_of kvs (ascii ''type'') = None" and "map_of kvs (ascii ''event_type'') = None"
    and "get_lower (JObj kvs) (ascii ''action'') = Inr action"
    and "(action, new_status) \<in> {(ascii ''confirm_appointment'', (ascii ''confirmed'')),
                                  (ascii ''cancel_appointment'', (ascii ''cancelled''))}"
    and "get_lower (JObj kvs) (ascii ''patient_name'') = Inr name"
  shows "(appointments st name = Some apt \<longrightarrow>
            handle_webhook_request st (JObj kvs) =
              (\<lparr>body = JObj
                  [(ascii ''status'', JStr (ascii ''success'')),
                   (ascii ''message'', JStr (ascii ''Appointment '' @ new_status @ ascii '' for '' @ title name))],
                http_status = 200\<rparr>,
               st\<lparr>appointments := (appointments st)(name \<mapsto> apt\<lparr>status := new_status\<rparr>)\<rparr>))
       \<and> (appointments st name = None \<longrightarrow>
            handle_webhook_request st (JObj kvs) =
              (\<lparr>body = JObj
                  [(ascii ''status'', JStr (ascii ''error'')),
                   (ascii ''message'', JStr (ascii ''Appointment not found''))],
                http_status = 200\<rparr>, st))"
proof -
  from assms(4) consider
      (confirm) "action = ascii ''confirm_appointment''" "new_status = ascii ''confirmed''"
    | (cancel) "action = ascii ''cancel_appointment''" "new_status = ascii ''cancelled''"
    by auto
  then show ?thesis
  proof cases
    case confirm
    have "dispatch st (JObj kvs) (ascii ''confirm_appointment'') name = confirm_appointment st name"
      by (simp add: dispatch_action)
    with assms(1-3,5) confirm show ?thesis
      by (simp add: handle_webhook_request_def try_block_dispatch confirm_appointment_def
          jsonify_def ascii_def)
  next
    case cancel
    have "dispatch st (JObj kvs) (ascii ''cancel_appointment'') name = cancel_appointment st name"
      by (simp add: dispatch_action)
    with assms(1-3,5) cancel show ?thesis
      by (simp add: handle_webhook_request_def try_block_dispatch cancel_appointment_def
          jsonify_def ascii_def)
  qed
qed

text \<open>A confirmation, a cancellation and a cancellation for an unknown patient.\<close>

theorem confirm_cancel_response_witness:
  "handle_webhook_request initial_state
     (JObj [(ascii ''action'', JStr (ascii ''confirm_appointment'')),
            (ascii ''patient_name'', JStr (ascii ''John SMITH''))]) =
     (\<lparr>body = JObj [(ascii ''status'', JStr (ascii ''success'')),
                    (ascii ''message'', JStr (ascii ''Appointment confirmed for John Smith''))],
       http_status = 200\<rparr>,
      initial_state\<lparr>appointments := (appointments initial_state)
         (ascii ''john smith'' \<mapsto> \<lparr>date = ascii ''2025-07-30'', time = ascii ''3:00 PM'', doctor = ascii ''Dr. Clark'',
                              status = ascii ''confirmed''\<rparr>)\<rparr>)
   \<and> handle_webhook_request initial_state
     (JObj [(ascii ''action'', JStr (ascii ''Cancel_Appointment'')),
            (ascii ''patient_name'', JStr (ascii ''jane doe''))]) =
     (\<lparr>body = JObj [(ascii ''status'', JStr (ascii ''success'')),
                    (ascii ''message'', JStr (ascii ''Appointment cancelled for Jane Doe''))],
       http_status = 200\<rparr>,
      initial_state\<lparr>appointments := (appointments initial_state)
         (ascii ''jane doe'' \<mapsto> \<lparr>date = ascii ''2025-07-29'', time = ascii ''10:00 AM'', doctor = ascii ''Dr. Martinez'',
                            status = ascii ''cancelled''\<rparr>)\<rparr>)
   \<and> handle_webhook_request initial_state
     (JObj [(ascii ''action'', JStr (ascii ''cancel_appointment'')),
            (ascii ''patient_name'', JStr (ascii ''ann-marie lee''))]) =
     (\<lparr>body = JObj [(ascii ''status'', JStr (ascii ''error'')),
                    (ascii ''message'', JStr (ascii ''Appointment not found''))],
       http_status = 200\<rparr>, initial_state)"
proof -
  let ?c = "[(ascii ''action'', JStr (ascii ''confirm_appointment'')),
             (ascii ''patient_name'', JStr (ascii ''John SMITH''))]"
  let ?x = "[(ascii ''action'', JStr (ascii ''Cancel_Appointment'')),
             (ascii ''patient_name'', JStr (ascii ''jane doe''))]"
  let ?m = "[(ascii ''action'', JStr (ascii ''cancel_appointment'')),
             (ascii ''patient_name'', JStr (ascii ''ann-marie lee''))]"
  let ?john = "\<lparr>date = ascii ''2025-07-30'', time = ascii ''3:00 PM'', doctor = ascii ''Dr. Clark'',
                status = ascii ''scheduled''\<rparr>"
  let ?jane = "\<lparr>date = ascii ''2025-07-29'', time = ascii ''10:00 AM'', doctor = ascii ''Dr. Martinez'',
                status = ascii ''scheduled''\<rparr>"
  have c1: "map_of ?c (ascii ''type'') = None" and c2: "map_of ?c (ascii ''event_type'') = None"
    and c3: "get_lower (JObj ?c) (ascii ''action'') = Inr (ascii ''confirm_appointment'')"
    and c4: "(ascii ''confirm_appointment'', (ascii ''confirmed'')) \<in>
       {(ascii ''confirm_appointment'',
        (ascii ''confirmed'')),
        (ascii ''cancel_appointment'',
        (ascii ''cancelled''))}"
    and c5: "get_lower (JObj ?c) (ascii ''patient_name'') = Inr (ascii ''john smith'')"
    and c6: "appointments initial_state (ascii ''john smith'') = Some ?john"
    by (simp_all add: get_lower_def str_defs initial_state_def)
  have x1: "map_of ?x (ascii ''type'') = None" and x2: "map_of ?x (ascii ''event_type'') = None"
    and x3: "get_lower (JObj ?x) (ascii ''action'') = Inr (ascii ''cancel_appointment'')"
    and x4: "(ascii ''cancel_appointment'', (ascii ''cancelled'')) \<in>
       {(ascii ''confirm_appointment'',
        (ascii ''confirmed'')),
        (ascii ''cancel_appointment'',
        (ascii ''cancelled''))}"
    and x5: "get_lower (JObj ?x) (ascii ''patient_name'') = Inr (ascii ''jane doe'')"
    and x6: "appointments initial_state (ascii ''jane doe'') = Some ?jane"
    by (simp_all add: get_lower_def str_defs initial_state_def)
  have m1: "map_of ?m (ascii ''type'') = None" and m2: "map_of ?m (ascii ''event_type'') = None"
    and m3: "get_lower (JObj ?m) (ascii ''action'') = Inr (ascii ''cancel_appointment'')"
    and m5: "get_lower (JObj ?m) (ascii ''patient_name'') = Inr (ascii ''ann-marie lee'')"
    and m6: "appointments initial_state (ascii ''ann-marie lee'') = None"
    by (simp_all add: get_lower_def str_defs initial_state_def)
  have t: "title (ascii ''john smith'') = ascii ''John Smith''" "title (ascii ''jane doe'') = ascii ''Jane Doe''"
    by (simp_all add: str_defs)
  from confirm_cancel_response [OF c1 c2 c3 c4 c5, of initial_state ?john]
       confirm_cancel_response [OF x1 x2 x3 x4 x5, of initial_state ?jane]
       confirm_cancel_response [OF m1 m2 m3 x4 m5, of initial_state]
       c6 x6 m6 t
  show ?thesis by (simp add: ascii_def)
qed

text \<open>
  Claim C6 as stated fails when the payload also has an \<^verbatim>\<open>event_type\<close> key: the patient is
  in the registry, the response is the acknowledgment and the record stays scheduled.
\<close>

theorem confirm_behind_validation_ping:
  "get_lower (JObj [(ascii ''event_type'', JStr (ascii ''ping'')),
                    (ascii ''action'', JStr (ascii ''confirm_appointment'')),
                    (ascii ''patient_name'', JStr (ascii ''john smith''))]) (ascii ''action'')
     = Inr (ascii ''confirm_appointment'')
   \<and> get_lower (JObj [(ascii ''event_type'', JStr (ascii ''ping'')),
                      (ascii ''action'', JStr (ascii ''confirm_appointment'')),
                    (ascii ''patient_name'', JStr (ascii ''john smith''))]) (ascii ''patient_name'')
     = Inr (ascii ''john smith'')
   \<and> appointments initial_state (ascii ''john smith'') \<noteq> None
   \<and> handle_webhook_request initial_state
        (JObj [(ascii ''event_type'', JStr (ascii ''ping'')),
               (ascii ''action'', JStr (ascii ''confirm_appointment'')),
               (ascii ''patient_name'', JStr (ascii ''john smith''))]) =
       (\<lparr>body = JObj [(ascii ''status'', JStr (ascii ''received'')),
                      (ascii ''message'', JStr (ascii ''Telnyx webhook received successfully''))],
         http_status = 200\<rparr>, initial_state)"
  by (simp add: handler_defs str_defs initial_state_def)

subsection \<open>C7: a refused reschedule\<close>

text \<open>
  Claim C7, amended. For every payload without a \<^verbatim>\<open>type\<close> or \<^verbatim>\<open>event_type\<close> key, with
  action \<^verbatim>\<open>reschedule_appointment\<close> and whose \<^verbatim>\<open>patient_name\<close> is absent or a string: if the
  lowercased \<^verbatim>\<open>patient_name\<close> is not a key of the registry, or \<^verbatim>\<open>appointment_time\<close> is absent,
  or its value is empty (any value that Python counts as false), the response is the error
  body \<^verbatim>\<open>Could not reschedule appointment\<close> and the state is unchanged.
\<close>

theorem reschedule_refused:
  assumes "map_of kvs (ascii ''type'') = None" and "map_of kvs (ascii ''event_type'') = None"
    and "get_lower (JObj kvs) (ascii ''action'') = Inr (ascii ''reschedule_appointment'')"
    and "get_lower (JObj kvs) (ascii ''patient_name'') = Inr name"
    and "appointments st name = None
         \<or> map_of kvs (ascii ''appointment_time'') = None
         \<or> (\<exists>v. map_of kvs (ascii ''appointment_time'') = Some v \<and> \<not> truthy v)"
  shows "handle_webhook_request st (JObj kvs) =
     (\<lparr>body = JObj [(ascii ''status'', JStr (ascii ''error'')),
                    (ascii ''message'', JStr (ascii ''Could not reschedule appointment''))],
       http_status = 200\<rparr>, st)"
proof -
  from assms(5) have "dispatch st (JObj kvs) (ascii ''reschedule_appointment'') name =
      (Inr could_not_reschedule, st)"
    by (auto simp add: dispatch_action reschedule_appointment_def split: option.splits)
  from handle_dispatch [OF assms(1-4) this] show ?thesis
    by (simp add: could_not_reschedule_def jsonify_def)
qed

text \<open>An absent time, an empty time, and an unknown patient with a proper time.\<close>

theorem reschedule_refused_witness:
  "handle_webhook_request initial_state
     (JObj [(ascii ''action'', JStr (ascii ''reschedule_appointment'')),
            (ascii ''patient_name'', JStr (ascii ''Jane Doe''))]) =
     (\<lparr>body = JObj [(ascii ''status'', JStr (ascii ''error'')),
                    (ascii ''message'', JStr (ascii ''Could not reschedule appointment''))],
       http_status = 200\<rparr>, initial_state)
   \<and> handle_webhook_request initial_state
     (JObj [(ascii ''action'', JStr (ascii ''reschedule_appointment'')),
            (ascii ''patient_name'', JStr (ascii ''Jane Doe'')),
            (ascii ''appointment_time'', JStr [])]) =
     (\<lparr>body = JObj [(ascii ''status'', JStr (ascii ''error'')),
                    (ascii ''message'', JStr (ascii ''Could not reschedule appointment''))],
       http_status = 200\<rparr>, initial_state)
   \<and> handle_webhook_request initial_state
     (JObj [(ascii ''action'', JStr (ascii ''reschedule_appointment'')),
            (ascii ''patient_name'', JStr (ascii ''Ann-Marie Lee'')),
            (ascii ''appointment_time'', JStr (ascii ''2025-08-02 9:00 AM''))]) =
     (\<lparr>body = JObj [(ascii ''status'', JStr (ascii ''error'')),
                    (ascii ''message'', JStr (ascii ''Could not reschedule appointment''))],
       http_status = 200\<rparr>, initial_state)"
proof -
  let ?absent = "[(ascii ''action'', JStr (ascii ''reschedule_appointment'')),
                  (ascii ''patient_name'', JStr (ascii ''Jane Doe''))]"
  let ?empty = "[(ascii ''action'', JStr (ascii ''reschedule_appointment'')),
                 (ascii ''patient_name'', JStr (ascii ''Jane Doe'')),
                 (ascii ''appointment_time'', JStr [])]"
  let ?unknown = "[(ascii ''action'', JStr (ascii ''reschedule_appointment'')),
                   (ascii ''patient_name'', JStr (ascii ''Ann-Marie Lee'')),
                   (ascii ''appointment_time'', JStr (ascii ''2025-08-02 9:00 AM''))]"
  have a1: "map_of ?absent (ascii ''type'') = None" and a2: "map_of ?absent (ascii ''event_type'') = None"
    and a3: "get_lower (JObj ?absent) (ascii ''action'') = Inr (ascii ''reschedule_appointment'')"
    and a4: "get_lower (JObj ?absent) (ascii ''patient_name'') = Inr (ascii ''jane doe'')"
    and a5: "appointments initial_state (ascii ''jane doe'') = None
         \<or> map_of ?absent (ascii ''appointment_time'') = None
         \<or> (\<exists>v. map_of ?absent (ascii ''appointment_time'') = Some v \<and> \<not> truthy v)"
    by (simp_all add: get_lower_def str_defs)
  have e1: "map_of ?empty (ascii ''type'') = None" and e2: "map_of ?empty (ascii ''event_type'') = None"
    and e3: "get_lower (JObj ?empty) (ascii ''action'') = Inr (ascii ''reschedule_appointment'')"
    and e4: "get_lower (JObj ?empty) (ascii ''patient_name'') = Inr (ascii ''jane doe'')"
    and e5: "appointments initial_state (ascii ''jane doe'') = None
         \<or> map_of ?empty (ascii ''appointment_time'') = None
         \<or> (\<exists>v. map_of ?empty (ascii ''appointment_time'') = Some v \<and> \<not> truthy v)"
    by (simp_all add: get_lower_def str_defs)
  have u1: "map_of ?unknown (ascii ''type'') = None" and u2: "map_of ?unknown (ascii ''event_type'') = None"
    and u3: "get_lower (JObj ?unknown) (ascii ''action'') = Inr (ascii ''reschedule_appointment'')"
    and u4: "get_lower (JObj ?unknown) (ascii ''patient_name'') = Inr (ascii ''ann-marie lee'')"
    and u5: "appointments initial_state (ascii ''ann-marie lee'') = None
         \<or> map_of ?unknown (ascii ''appointment_time'') = None
         \<or> (\<exists>v. map_of ?unknown (ascii ''appointment_time'') = Some v \<and> \<not> truthy v)"
    by (simp_all add: get_lower_def str_defs initial_state_def)
  from reschedule_refused [OF a1 a2 a3 a4 a5] reschedule_refused [OF e1 e2 e3 e4 e5]
       reschedule_refused [OF u1 u2 u3 u4 u5]
  show ?thesis by blast
qed

text \<open>
  Claim C7 as stated fails at two payloads with action \<^verbatim>\<open>reschedule_appointment\<close> and no
  \<^verbatim>\<open>appointment_time\<close>: one that also has a \<^verbatim>\<open>type\<close> key is acknowledged as a validation
  ping, and one whose \<^verbatim>\<open>patient_name\<close> is a number gets the internal fault.
\<close>

theorem reschedule_refusal_preempted:
  "get_lower (JObj [(ascii ''type'', JStr (ascii ''ping'')),
                    (ascii ''action'', JStr (ascii ''reschedule_appointment'')),
                    (ascii ''patient_name'', JStr (ascii ''jane doe''))]) (ascii ''action'')
     = Inr (ascii ''reschedule_appointment'')
   \<and> map_of [(ascii ''type'', JStr (ascii ''ping'')),
             (ascii ''action'', JStr (ascii ''reschedule_appointment'')),
             (ascii ''patient_name'', JStr (ascii ''jane doe''))] (ascii ''appointment_time'') = None
   \<and> handle_webhook_request initial_state
        (JObj [(ascii ''type'', JStr (ascii ''ping'')),
               (ascii ''action'', JStr (ascii ''reschedule_appointment'')),
               (ascii ''patient_name'', JStr (ascii ''jane doe''))]) =
       (\<lparr>body = JObj [(ascii ''status'', JStr (ascii ''received'')),
                      (ascii ''message'', JStr (ascii ''Telnyx webhook received successfully''))],
         http_status = 200\<rparr>, initial_state)
   \<and> get_lower (JObj [(ascii ''action'', JStr (ascii ''reschedule_appointment'')),
                    (ascii ''patient_name'', JNum 42)]) (ascii ''action'')
     = Inr (ascii ''reschedule_appointment'')
   \<and> map_of [(ascii ''action'', JStr (ascii ''reschedule_appointment'')),
             (ascii ''patient_name'', JNum 42)] (ascii ''appointment_time'') = None
   \<and> handle_webhook_request initial_state
        (JObj [(ascii ''action'', JStr (ascii ''reschedule_appointment'')),
               (ascii ''patient_name'', JNum 42)]) =
       (\<lparr>body = JObj [(ascii ''status'', JStr (ascii ''error'')),
                      (ascii ''message'', JStr (ascii ''Internal server error''))],
         http_status = 500\<rparr>, initial_state)"
  by (simp add: handler_defs str_defs initial_state_def)

subsection \<open>C8: unknown actions\<close>

text \<open>
  Claim C8, amended. For every payload without a \<^verbatim>\<open>type\<close> or \<^verbatim>\<open>event_type\<close> key, whose
  lowercased action (the empty string when the field is absent) is none of the five
  recognized actions, and whose \<^verbatim>\<open>patient_name\<close> is absent or a string, the response is the
  error body \<^verbatim>\<open>Unknown action: \<close> followed by the lowercased action, and the state is
  unchanged.
\<close>

theorem unknown_action_response:
  assumes "map_of kvs (ascii ''type'') = None" and "map_of kvs (ascii ''event_type'') = None"
    and "get_lower (JObj kvs) (ascii ''action'') = Inr action"
    and "action \<notin> {ascii ''lookup_appointment'', ascii ''check_availability'', ascii ''confirm_appointment'',
                     ascii ''cancel_appointment'', ascii ''reschedule_appointment''}"
    and "get_lower (JObj kvs) (ascii ''patient_name'') = Inr name"
  shows "handle_webhook_request st (JObj kvs) =
     (\<lparr>body = JObj [(ascii ''status'', JStr (ascii ''error'')),
                    (ascii ''message'', JStr (ascii ''Unknown action: '' @ action))],
       http_status = 200\<rparr>, st)"
proof -
  from assms(4) have "dispatch st (JObj kvs) action name = unknown_action st action"
    by (simp add: dispatch_def)
  then have "dispatch st (JObj kvs) action name =
      (Inr (jsonify [(ascii ''status'', JStr (ascii ''error'')),
                     (ascii ''message'', JStr (ascii ''Unknown action: '' @ action))]), st)"
    by (simp add: unknown_action_def)
  from handle_dispatch [OF assms(1-3) assms(5) this] show ?thesis
    by (simp add: jsonify_def)
qed

text \<open>An unknown action in capitals that ends with an accented letter, and the empty payload.\<close>

theorem unknown_action_response_witness:
  "handle_webhook_request initial_state
     (JObj [(ascii ''action'', JStr (ascii ''FROBNICAT'' @ [0xC9]))]) =
     (\<lparr>body = JObj [(ascii ''status'', JStr (ascii ''error'')),
                    (ascii ''message'',
                     JStr (ascii ''Unknown action: frobnicat'' @ [0xE9]))],
       http_status = 200\<rparr>, initial_state)
   \<and> handle_webhook_request initial_state (JObj []) =
     (\<lparr>body = JObj [(ascii ''status'', JStr (ascii ''error'')),
                    (ascii ''message'', JStr (ascii ''Unknown action: ''))],
       http_status = 200\<rparr>, initial_state)"
proof -
  let ?f = "[(ascii ''action'', JStr (ascii ''FROBNICAT'' @ [0xC9]))]"
  let ?five = "{ascii ''lookup_appointment'', ascii ''check_availability'',
                ascii ''confirm_appointment'', ascii ''cancel_appointment'',
                ascii ''reschedule_appointment''}"
  have f1: "map_of ?f (ascii ''type'') = None" and f2: "map_of ?f (ascii ''event_type'') = None"
    and f3: "get_lower (JObj ?f) (ascii ''action'') = Inr (ascii ''frobnicat'' @ [0xE9])"
    and f4: "ascii ''frobnicat'' @ [0xE9] \<notin> ?five"
    and f5: "get_lower (JObj ?f) (ascii ''patient_name'') = Inr []"
    by (simp_all add: get_lower_def str_defs)
  have n1: "map_of ([] :: (str \<times> json) list) (ascii ''type'') = None"
    and n2: "map_of ([] :: (str \<times> json) list) (ascii ''event_type'') = None"
    and n3: "get_lower (JObj []) (ascii ''action'') = Inr []"
    and n4: "[] \<notin> ?five"
    and n5: "get_lower (JObj []) (ascii ''patient_name'') = Inr []"
    by (simp_all add: get_lower_def str_defs)
  from unknown_action_response [OF f1 f2 f3 f4 f5, of initial_state]
       unknown_action_response [OF n1 n2 n3 n4 n5, of initial_state]
  show ?thesis by (simp add: ascii_def)
qed

text \<open>
  Claim C8 as stated fails when \<^verbatim>\<open>patient_name\<close> is a number: line 87 lowercases the
  patient name before the action is looked at, and the response is the internal fault.
\<close>

theorem unknown_action_with_numeric_name:
  "map_of [(ascii ''action'', JStr (ascii ''frobnicate'')),
           (ascii ''patient_name'', JNum 42)] (ascii ''type'') = None
   \<and> map_of [(ascii ''action'', JStr (ascii ''frobnicate'')),
             (ascii ''patient_name'', JNum 42)] (ascii ''event_type'') = None
   \<and> get_lower (JObj [(ascii ''action'', JStr (ascii ''frobnicate'')),
                      (ascii ''patient_name'', JNum 42)]) (ascii ''action'')
     = Inr (ascii ''frobnicate'')
   \<and> handle_webhook_request initial_state
        (JObj [(ascii ''action'', JStr (ascii ''frobnicate'')),
               (ascii ''patient_name'', JNum 42)]) =
       (\<lparr>body = JObj [(ascii ''status'', JStr (ascii ''error'')),
                      (ascii ''message'', JStr (ascii ''Internal server error''))],
         http_status = 500\<rparr>, initial_state)"
  by (simp add: handler_defs str_defs initial_state_def)

subsection \<open>C9: case-insensitive matching\<close>

text \<open>
  Claim C9. Take a payload whose \<^verbatim>\<open>patient_name\<close> (or \<^verbatim>\<open>action\<close>) is a string, and a second
  payload that differs from it only in that field, holding there a string with the same
  lowercase form. In every state the two payloads get the same response and leave the
  same state.
\<close>

theorem matching_is_case_insensitive:
  assumes "f = ascii ''patient_name'' \<or> f = ascii ''action''"
    and "map_of kvs f = Some (JStr s)" and "map_of kvs' f = Some (JStr s')"
    and "lower s' = lower s"
    and "\<forall>k. k \<noteq> f \<longrightarrow> map_of kvs' k = map_of kvs k"
  shows "handle_webhook_request st (JObj kvs') = handle_webhook_request st (JObj kvs)"
proof -
  from assms(1,5) have other:
    "map_of kvs' (ascii ''type'') = map_of kvs (ascii ''type'')"
    "map_of kvs' (ascii ''event_type'') = map_of kvs (ascii ''event_type'')"
    "map_of kvs' (ascii ''appointment_time'') = map_of kvs (ascii ''appointment_time'')"
    by (auto simp add: ascii_def)
  from assms(1,5) have cross:
    "f = ascii ''patient_name'' \<Longrightarrow>
       map_of kvs' (ascii ''action'') = map_of kvs (ascii ''action'')"
    "f = ascii ''action'' \<Longrightarrow>
       map_of kvs' (ascii ''patient_name'') = map_of kvs (ascii ''patient_name'')"
    by (auto simp add: ascii_def)
  from assms(2-4) have "get_lower (JObj kvs') f = get_lower (JObj kvs) f"
    by (simp add: get_lower_def)
  moreover from cross have
    "f = ascii ''patient_name'' \<Longrightarrow>
       get_lower (JObj kvs') (ascii ''action'') = get_lower (JObj kvs) (ascii ''action'')"
    "f = ascii ''action'' \<Longrightarrow>
       get_lower (JObj kvs') (ascii ''patient_name'') =
       get_lower (JObj kvs) (ascii ''patient_name'')"
    by (simp_all add: get_lower_def)
  ultimately have fields:
    "get_lower (JObj kvs') (ascii ''action'') = get_lower (JObj kvs) (ascii ''action'')"
    "get_lower (JObj kvs') (ascii ''patient_name'') = get_lower (JObj kvs) (ascii ''patient_name'')"
    using assms(1) by auto
  have "try_block st (JObj kvs') = try_block st (JObj kvs)"
    unfolding try_block_object other(1,2) fields
      dispatch_reads_appointment_time [OF other(3)] ..
  then show ?thesis by (simp add: handle_webhook_request_def)
qed

text \<open>
  \<^verbatim>\<open>JOHN SMITH\<close> against \<^verbatim>\<open>john smith\<close>, and \<^verbatim>\<open>Confirm_Appointment\<close> against
  \<^verbatim>\<open>confirm_appointment\<close>: the same response, and the same confirmed record. The same
  for a name written with a capital and with a small e acute.
\<close>

theorem matching_is_case_insensitive_witness:
  "handle_webhook_request initial_state
     (JObj [(ascii ''action'', JStr (ascii ''confirm_appointment'')),
            (ascii ''patient_name'', JStr (ascii ''JOHN SMITH''))]) =
   handle_webhook_request initial_state
     (JObj [(ascii ''action'', JStr (ascii ''confirm_appointment'')),
            (ascii ''patient_name'', JStr (ascii ''john smith''))])
   \<and> handle_webhook_request initial_state
     (JObj [(ascii ''action'', JStr (ascii ''Confirm_Appointment'')),
            (ascii ''patient_name'', JStr (ascii ''john smith''))]) =
   handle_webhook_request initial_state
     (JObj [(ascii ''action'', JStr (ascii ''confirm_appointment'')),
            (ascii ''patient_name'', JStr (ascii ''john smith''))])
   \<and> snd (handle_webhook_request initial_state
     (JObj [(ascii ''action'', JStr (ascii ''confirm_appointment'')),
            (ascii ''patient_name'', JStr (ascii ''john smith''))])) =
     initial_state\<lparr>appointments := (appointments initial_state)
         (ascii ''john smith'' \<mapsto>
            \<lparr>date = ascii ''2025-07-30'', time = ascii ''3:00 PM'',
             doctor = ascii ''Dr. Clark'', status = ascii ''confirmed''\<rparr>)\<rparr>
   \<and> handle_webhook_request initial_state
     (JObj [(ascii ''action'', JStr (ascii ''lookup_appointment'')),
            (ascii ''patient_name'', JStr (ascii ''JOS'' @ [0xC9]))]) =
   handle_webhook_request initial_state
     (JObj [(ascii ''action'', JStr (ascii ''lookup_appointment'')),
            (ascii ''patient_name'', JStr (ascii ''jos'' @ [0xE9]))])"
proof -
  let ?lo = "[(ascii ''action'', JStr (ascii ''confirm_appointment'')),
              (ascii ''patient_name'', JStr (ascii ''john smith''))]"
  let ?up = "[(ascii ''action'', JStr (ascii ''confirm_appointment'')),
              (ascii ''patient_name'', JStr (ascii ''JOHN SMITH''))]"
  let ?ac = "[(ascii ''action'', JStr (ascii ''Confirm_Appointment'')),
              (ascii ''patient_name'', JStr (ascii ''john smith''))]"
  let ?je = "[(ascii ''action'', JStr (ascii ''lookup_appointment'')),
              (ascii ''patient_name'', JStr (ascii ''jos'' @ [0xE9]))]"
  let ?JE = "[(ascii ''action'', JStr (ascii ''lookup_appointment'')),
              (ascii ''patient_name'', JStr (ascii ''JOS'' @ [0xC9]))]"
  have p1: "ascii ''patient_name'' = ascii ''patient_name''
            \<or> ascii ''patient_name'' = ascii ''action''"
    and p2: "map_of ?lo (ascii ''patient_name'') = Some (JStr (ascii ''john smith''))"
    and p3: "map_of ?up (ascii ''patient_name'') = Some (JStr (ascii ''JOHN SMITH''))"
    and p4: "lower (ascii ''JOHN SMITH'') = lower (ascii ''john smith'')"
    and p5: "\<forall>k. k \<noteq> ascii ''patient_name'' \<longrightarrow> map_of ?up k = map_of ?lo k"
    by (simp_all add: str_defs)
  have a1: "ascii ''action'' = ascii ''patient_name'' \<or> ascii ''action'' = ascii ''action''"
    and a2: "map_of ?lo (ascii ''action'') = Some (JStr (ascii ''confirm_appointment''))"
    and a3: "map_of ?ac (ascii ''action'') = Some (JStr (ascii ''Confirm_Appointment''))"
    and a4: "lower (ascii ''Confirm_Appointment'') = lower (ascii ''confirm_appointment'')"
    and a5: "\<forall>k. k \<noteq> ascii ''action'' \<longrightarrow> map_of ?ac k = map_of ?lo k"
    by (simp_all add: str_defs)
  have j2: "map_of ?je (ascii ''patient_name'') = Some (JStr (ascii ''jos'' @ [0xE9]))"
    and j3: "map_of ?JE (ascii ''patient_name'') = Some (JStr (ascii ''JOS'' @ [0xC9]))"
    and j4: "lower (ascii ''JOS'' @ [0xC9]) = lower (ascii ''jos'' @ [0xE9])"
    and j5: "\<forall>k. k \<noteq> ascii ''patient_name'' \<longrightarrow> map_of ?JE k = map_of ?je k"
    by (simp_all add: str_defs)
  have "snd (handle_webhook_request initial_state (JObj ?lo)) =
     initial_state\<lparr>appointments := (appointments initial_state)
         (ascii ''john smith'' \<mapsto>
            \<lparr>date = ascii ''2025-07-30'', time = ascii ''3:00 PM'',
             doctor = ascii ''Dr. Clark'', status = ascii ''confirmed''\<rparr>)\<rparr>"
    by (simp add: handler_defs str_defs initial_state_def)
  with matching_is_case_insensitive [OF p1 p2 p3 p4 p5, of initial_state]
       matching_is_case_insensitive [OF a1 a2 a3 a4 a5, of initial_state]
       matching_is_case_insensitive [OF p1 j2 j3 j4 j5, of initial_state]
  show ?thesis by simp
qed

subsection \<open>C10: what a dispatch can change\<close>

text \<open>
  Claim C10. For every state and every request body, handled or faulting: the slot list is
  unchanged; the registry has the same keys afterwards; and if the registry has changed,
  then the request was not a validation ping and its lowercased action is
  \<^verbatim>\<open>confirm_appointment\<close>, \<^verbatim>\<open>cancel_appointment\<close> or \<^verbatim>\<open>reschedule_appointment\<close>.
\<close>

theorem dispatch_frame_conditions:
  "available_slots (snd (handle_webhook_request st payload)) = available_slots st
   \<and> dom (appointments (snd (handle_webhook_request st payload))) = dom (appointments st)
   \<and> (appointments (snd (handle_webhook_request st payload)) \<noteq> appointments st \<longrightarrow>
        is_validation payload = Inr False
        \<and> get_lower payload (ascii ''action'') \<in>
            {Inr (ascii ''confirm_appointment''), Inr (ascii ''cancel_appointment''),
             Inr (ascii ''reschedule_appointment'')})"
proof -
  have "is_validation payload = Inr False
        \<and> get_lower payload (ascii ''action'') \<in>
            {Inr (ascii ''confirm_appointment''), Inr (ascii ''cancel_appointment''),
             Inr (ascii ''reschedule_appointment'')}"
    if changed: "appointments (snd (handle_webhook_request st payload)) \<noteq> appointments st"
  proof -
    from changed have "snd (try_block st payload) \<noteq> st"
      by (auto simp add: handle_snd)
    with try_block_cases [of st payload] obtain a n
      where v: "is_validation payload = Inr False"
        and a: "get_lower payload (ascii ''action'') = Inr a"
        and d: "snd (try_block st payload) = snd (dispatch st payload a n)"
      by blast
    from changed d have "appointments (snd (dispatch st payload a n)) \<noteq> appointments st"
      by (simp add: handle_snd)
    from dispatch_changes [OF this] v a show ?thesis by auto
  qed
  with handle_frame [of st payload] show ?thesis by blast
qed

text \<open>A cancellation changes the registry and keeps its two keys.\<close>

theorem dispatch_frame_conditions_witness:
  "appointments (snd (handle_webhook_request initial_state
      (JObj [(ascii ''action'', JStr (ascii ''cancel_appointment'')),
             (ascii ''patient_name'', JStr (ascii ''Jane Doe''))])))
     \<noteq> appointments initial_state
   \<and> is_validation
       (JObj [(ascii ''action'', JStr (ascii ''cancel_appointment'')),
              (ascii ''patient_name'', JStr (ascii ''Jane Doe''))])
     = Inr False
   \<and> get_lower
       (JObj [(ascii ''action'', JStr (ascii ''cancel_appointment'')),
              (ascii ''patient_name'', JStr (ascii ''Jane Doe''))])
       (ascii ''action'') = Inr (ascii ''cancel_appointment'')
   \<and> dom (appointments (snd (handle_webhook_request initial_state
      (JObj [(ascii ''action'', JStr (ascii ''cancel_appointment'')),
             (ascii ''patient_name'', JStr (ascii ''Jane Doe''))]))))
     = {ascii ''john smith'', ascii ''jane doe''}"
proof -
  let ?p = "JObj [(ascii ''action'', JStr (ascii ''cancel_appointment'')),
                  (ascii ''patient_name'', JStr (ascii ''Jane Doe''))]"
  have "appointments (snd (handle_webhook_request initial_state ?p)) (ascii ''jane doe'') \<noteq>
      appointments initial_state (ascii ''jane doe'')"
    by (simp add: handler_defs str_defs initial_state_def)
  then have changed:
    "appointments (snd (handle_webhook_request initial_state ?p)) \<noteq> appointments initial_state"
    by (rule contrapos_nn) (rule fun_cong)
  have a: "get_lower ?p (ascii ''action'') = Inr (ascii ''cancel_appointment'')"
    by (simp add: get_lower_def str_defs)
  have "dom (appointments initial_state) = {ascii ''john smith'', ascii ''jane doe''}"
    by (auto simp add: initial_state_def)
  with dispatch_frame_conditions [of initial_state ?p] changed a show ?thesis
    by simp
qed

end
